theory Spec2Isabelle
  imports Main "HOL-Library.Word"
begin

section \<open>Data model\<close>

text \<open>
  The CloneSet variant of the canary controller (package \<open>canary\<close>: the file
  \<open>cloneset_controller.go\<close>, and the CloneSet readiness functions that follow the
  factory in \<open>factory.go\<close>) is embedded function by function. The Go code is written against interfaces (the kruise client, the config
  tracker, the logger); each interface is a record of functions over a world state
  \<open>'s\<close>, threaded explicitly. Every \<open>return err\<close> of the source is a branch that returns
  \<open>Some err\<close> (or \<open>Inl err\<close>) together with the state reached.
\<close>

type_synonym int32 = "32 word"
type_synonym int64 = "64 word"

text \<open>
  A Go \<open>map[string]string\<close>: \<open>None\<close> is the nil map, \<open>Some m\<close> an allocated map.
  Reading, \<open>len\<close>, \<open>range\<close> and \<open>delete\<close> accept the nil map; only a write needs an
  allocated one.
\<close>

type_synonym gomap = "(string \<rightharpoonup> string) option"

definition map_index :: "gomap \<Rightarrow> string \<Rightarrow> string option" where
  \<comment> \<open>\<open>v, ok := m[k]\<close>: \<open>None\<close> when \<open>ok\<close> is false\<close>
  "map_index m k = (case m of None \<Rightarrow> None | Some f \<Rightarrow> f k)"

definition map_entries :: "gomap \<Rightarrow> (string \<rightharpoonup> string)" where
  \<comment> \<open>the entries a \<open>range\<close> loop visits (none for the nil map)\<close>
  "map_entries m = (case m of None \<Rightarrow> Map.empty | Some f \<Rightarrow> f)"

definition map_delete :: "gomap \<Rightarrow> string \<Rightarrow> gomap" where
  \<comment> \<open>\<open>delete(m, k)\<close>: a no-op on the nil map\<close>
  "map_delete m k = (case m of None \<Rightarrow> None | Some f \<Rightarrow> Some (f(k := None)))"

text \<open>
  A \<open>*int32\<close>: the address of the cell and the value stored in it. No function of the
  controller writes through such a pointer, so the value can travel with the address;
  \<open>==\<close> on pointers compares addresses only. \<open>None\<close> is the nil pointer.
\<close>

record int32_ref =
  addr :: nat
  deref :: int32

definition ptr_eq :: "int32_ref option \<Rightarrow> int32_ref option \<Rightarrow> bool" where
  \<comment> \<open>Go's \<open>p == q\<close> on two \<open>*int32\<close>\<close>
  "ptr_eq p q = (map_option addr p = map_option addr q)"

subsection \<open>Errors\<close>

datatype StatusReason =
    StatusReasonNotFound
  | StatusReasonAlreadyExists
  | StatusReasonConflict
  | StatusReasonForbidden
  | StatusReasonServerTimeout
  | StatusReasonInternalError

text \<open>
  A Go \<open>error\<close> value. \<open>Errorf f args\<close> is \<open>fmt.Errorf(f, args...)\<close> with the format
  string of the source kept as it is; \<open>ArgW e\<close> is an error passed for a \<open>%w\<close> verb (the
  result wraps it), \<open>ArgV e\<close> an error passed for \<open>%v\<close> (only its text is used).
  \<open>Panic\<close> is a run-time panic: it is not an error value in Go, and unwinds through
  every caller, which the model renders by passing it on unwrapped.
\<close>

datatype error =
    StatusError StatusReason string
  | OpaqueError string
  | Errorf string "fmtarg list"
  | Panic string
and fmtarg =
    ArgS string
  | ArgD int
  | ArgQ string
  | ArgStrs "string list"
  | ArgW error
  | ArgV error

definition Errorf_w :: "string \<Rightarrow> fmtarg list \<Rightarrow> error \<Rightarrow> error" where
  \<comment> \<open>\<open>fmt.Errorf(f, args..., err)\<close> at a call site that returns as soon as \<open>err != nil\<close>\<close>
  "Errorf_w f args err = (case err of Panic m \<Rightarrow> Panic m | _ \<Rightarrow> Errorf f (args @ [ArgW err]))"

definition Errorf_v :: "string \<Rightarrow> fmtarg list \<Rightarrow> error \<Rightarrow> error" where
  "Errorf_v f args err = (case err of Panic m \<Rightarrow> Panic m | _ \<Rightarrow> Errorf f (args @ [ArgV err]))"

definition IsNotFound :: "error \<Rightarrow> bool" where
  \<comment> \<open>\<open>errors.IsNotFound\<close> of apimachinery, on a non-nil error\<close>
  "IsNotFound err = (case err of StatusError r m \<Rightarrow> r = StatusReasonNotFound | _ \<Rightarrow> False)"

subsection \<open>Kubernetes and kruise objects\<close>

text \<open>
  The type declarations of the API objects are not part of the two files; the records
  below have the fields the controller reads or writes.
\<close>

record OwnerReference =
  ownerAPIVersion :: string
  ownerKind :: string
  ownerName :: string
  ownerController :: bool
  ownerBlockOwnerDeletion :: bool

record ObjectMeta =
  Name :: string
  Namespace :: string
  Labels :: gomap
  Annotations :: gomap
  OwnerReferences :: "OwnerReference list"
  Generation :: int64

record Container =
  containerName :: string
  containerImage :: string

record PodSpec =
  NodeSelector :: gomap
  Containers :: "Container list"

record PodTemplateSpec =
  tmplMeta :: ObjectMeta
  tmplSpec :: PodSpec

record LabelSelector =
  MatchLabels :: gomap

record CloneSetUpdateStrategy =
  strategyType :: string
  strategyPartition :: "int32_ref option"
  strategyPaused :: bool

record CloneSetSpec =
  Replicas :: "int32_ref option"
  Selector :: "LabelSelector option"
  Template :: PodTemplateSpec
  MinReadySeconds :: int32
  RevisionHistoryLimit :: "int32_ref option"
  UpdateStrategy :: CloneSetUpdateStrategy

record CloneSetStatus =
  ObservedGeneration :: int64
  statusReplicas :: int32
  UpdatedReplicas :: int32
  AvailableReplicas :: int32

record CloneSet =
  csMeta :: ObjectMeta
  csSpec :: CloneSetSpec
  csStatus :: CloneSetStatus

record CloneSetCondition =
  condType :: string
  condStatus :: string
  condReason :: string
  condLastTransitionTime :: int

definition RecreateCloneSetUpdateStrategyType :: string where
  \<comment> \<open>constant of the kruise API\<close>
  "RecreateCloneSetUpdateStrategyType = ''ReCreate''"

text \<open>
  The canary descriptor. \<open>SkipAnalysis\<close> and \<open>GetProgressDeadlineSeconds\<close> are methods
  of the descriptor type, declared outside the two files: the record holds what they
  return.
\<close>

record Canary =
  cdMeta :: ObjectMeta
  TargetRef_Name :: string
  Service_PortDiscovery :: bool
  Status_Phase :: string
  Status_LastAppliedSpec :: string
  SkipAnalysis :: bool
  GetProgressDeadlineSeconds :: int

definition CanaryPhaseInitializing :: string where
  "CanaryPhaseInitializing = ''Initializing''"

definition CanaryKind :: string where
  "CanaryKind = ''Canary''"

definition SchemeGroupVersion :: "string \<times> string" where
  "SchemeGroupVersion = (''flagger.app'', ''v1beta1'')"

definition NewControllerRef :: "Canary \<Rightarrow> string \<times> string \<times> string \<Rightarrow> OwnerReference" where
  \<comment> \<open>\<open>metav1.NewControllerRef(owner, gvk)\<close>\<close>
  "NewControllerRef cd gvk =
     (case gvk of (g, v, k) \<Rightarrow>
        \<lparr> ownerAPIVersion = g @ ''/'' @ v, ownerKind = k, ownerName = Name (cdMeta cd),
          ownerController = True, ownerBlockOwnerDeletion = True \<rparr>)"

subsection \<open>The interfaces the controller is built from\<close>

record 's KruiseClient =
  Get :: "string \<Rightarrow> string \<Rightarrow> 's \<Rightarrow> (error + CloneSet) \<times> 's"
  Create :: "string \<Rightarrow> CloneSet \<Rightarrow> 's \<Rightarrow> (error + CloneSet) \<times> 's"
  Update :: "string \<Rightarrow> CloneSet \<Rightarrow> 's \<Rightarrow> (error + CloneSet) \<times> 's"

record ('s, 'r) Tracker =
  GetTargetConfigs :: "Canary \<Rightarrow> 's \<Rightarrow> (error + 'r) \<times> 's"
  CreatePrimaryConfigs :: "Canary \<Rightarrow> 'r \<Rightarrow> string list \<Rightarrow> 's \<Rightarrow> error option \<times> 's"
  ApplyPrimaryConfigs :: "PodSpec \<Rightarrow> 'r \<Rightarrow> PodSpec"
  HasConfigChanged :: "Canary \<Rightarrow> 's \<Rightarrow> (bool \<times> error option) \<times> 's"

record ('s, 'r) CloneSetController =
  kruiseClient :: "'s KruiseClient"
  logger_Infof :: "string \<Rightarrow> string \<Rightarrow> 's \<Rightarrow> 's"
  configTracker :: "('s, 'r) Tracker"
  labels :: "string list"
  includeLabelPrefix :: "string list"

text \<open>
  Functions of package \<open>canary\<close> and of the Go runtime that the two files call and do not
  define. They are parameters of the model: \<open>time_Now\<close> reads the clock, \<open>int32p\<close>
  returns a pointer to an \<open>int32\<close> and may allocate, \<open>makeAnnotations\<close> may draw a
  random identifier and may fail.
\<close>

record 's Pkg =
  time_Now :: "'s \<Rightarrow> int"
  int32p :: "int32 \<Rightarrow> 's \<Rightarrow> int32_ref \<times> 's"
  makeAnnotations :: "gomap \<Rightarrow> 's \<Rightarrow> (error + gomap) \<times> 's"
  includeLabelsByPrefix :: "gomap \<Rightarrow> string list \<Rightarrow> gomap"
  getPorts :: "Canary \<Rightarrow> Container list \<Rightarrow> (string \<rightharpoonup> int32) option"
  hasSpecChanged :: "Canary \<Rightarrow> PodTemplateSpec \<Rightarrow> bool \<times> error option"

definition makePrimaryLabels :: "gomap \<Rightarrow> string \<Rightarrow> string \<Rightarrow> gomap" where
  \<comment> \<open>Modelled from the spec: \<open>makePrimaryLabels\<close> is a helper of the package that is not in
      the two files. The spec says the copied labels are relabelled with the primary
      selector value (the selector label value plus the fixed suffix) under the selector
      label: the result is a new map with the given labels and the selector label set.\<close>
  "makePrimaryLabels ls labelValue label = Some ((map_entries ls)(label \<mapsto> labelValue))"

section \<open>The scale-to-zero marker\<close>

definition cloneSetScaleDownNodeSelector :: "(string \<times> string) list" where
  \<comment> \<open>a map literal with one entry; a \<open>range\<close> over it visits that entry\<close>
  "cloneSetScaleDownNodeSelector = [(''flagger.app/scale-to-zero'', ''true'')]"

section \<open>Readiness\<close>

definition getCloneSetCondition :: "('s, 'r) CloneSetController \<Rightarrow> CloneSetCondition option" where
  "getCloneSetCondition c = None"

definition isCloneSetReady ::
  "'s Pkg \<Rightarrow> ('s, 'r) CloneSetController \<Rightarrow> CloneSet \<Rightarrow> int \<Rightarrow> 's \<Rightarrow> bool \<times> error option" where
  "isCloneSetReady P c cloneSet deadline s =
     (if sint (Generation (csMeta cloneSet)) \<le> sint (ObservedGeneration (csStatus cloneSet)) then
        (let progress = getCloneSetCondition c;
             retriable =
               (case progress of
                  None \<Rightarrow> True
                | Some pr \<Rightarrow>
                    (case getCloneSetCondition c of
                       None \<Rightarrow> True
                     | Some available \<Rightarrow>
                         (if condStatus available = ''False''
                             \<and> condReason available = ''MinimumReplicasUnavailable''
                          then
                            (let from = condLastTransitionTime available;
                                 delta = (word_of_int deadline :: int64) * 1000000000
                             in \<not> (from + sint delta < time_Now P s))
                          else True)));
             status = csStatus cloneSet;
             rest =
               (if sint (statusReplicas status) > sint (UpdatedReplicas status) then
                  (retriable,
                   Some (Errorf ''waiting for rollout to finish: %d old replicas are pending termination''
                           [ArgD (sint (statusReplicas status - UpdatedReplicas status))]))
                else if sint (AvailableReplicas status) < sint (UpdatedReplicas status) then
                  (retriable,
                   Some (Errorf ''waiting for rollout to finish: %d of %d updated replicas are available''
                           [ArgD (sint (AvailableReplicas status)), ArgD (sint (UpdatedReplicas status))]))
                else (True, None))
         in
           if (case progress of None \<Rightarrow> False
               | Some pr \<Rightarrow> condReason pr = ''ProgressDeadlineExceeded'') then
             (False, Some (Errorf ''cloneset %q exceeded its progress deadline''
                             [ArgQ (Name (csMeta cloneSet))]))
           else
             (case Replicas (csSpec cloneSet) of
                None \<Rightarrow> rest
              | Some r \<Rightarrow>
                  if sint (UpdatedReplicas status) < sint (deref r) then
                    (retriable,
                     Some (Errorf ''waiting for rollout to finish: %d out of %d new replicas have been updated''
                             [ArgD (sint (UpdatedReplicas status)), ArgD (sint (deref r))]))
                  else rest))
      else
        (True,
         Some (Errorf
           ''waiting for rollout to finish: observed cloneset generation less then desired generation''
           [])))"

section \<open>Selector resolution\<close>

fun getSelectorLabel_loop :: "string list \<Rightarrow> CloneSet \<Rightarrow> (error + string \<times> string) option" where
  \<comment> \<open>the \<open>for _, l := range c.labels\<close> loop; \<open>None\<close> when it ends without returning\<close>
  "getSelectorLabel_loop [] cloneSet = None"
| "getSelectorLabel_loop (l # ls) cloneSet =
     (case Selector (csSpec cloneSet) of
        None \<Rightarrow> Some (Inl (Panic ''invalid memory address or nil pointer dereference''))
      | Some sel \<Rightarrow>
          (case map_index (MatchLabels sel) l of
             Some v \<Rightarrow> Some (Inr (l, v))
           | None \<Rightarrow> getSelectorLabel_loop ls cloneSet))"

definition getSelectorLabel ::
  "('s, 'r) CloneSetController \<Rightarrow> CloneSet \<Rightarrow> error + string \<times> string" where
  "getSelectorLabel c cloneSet =
     (case getSelectorLabel_loop (labels c) cloneSet of
        Some r \<Rightarrow> r
      | None \<Rightarrow>
          Inl (Errorf (''cloneset %s.%s spec.selector.matchLabels must contain one of %v'' @ [CHR 0x27])
                 [ArgS (Name (csMeta cloneSet)), ArgS (Namespace (csMeta cloneSet)), ArgStrs (labels c)]))"

section \<open>Readiness of the primary and of the canary\<close>

definition IsPrimaryReady ::
  "'s Pkg \<Rightarrow> ('s, 'r) CloneSetController \<Rightarrow> Canary \<Rightarrow> 's \<Rightarrow> error option \<times> 's" where
  "IsPrimaryReady P c cd s =
     (let primaryName = TargetRef_Name cd @ ''-primary'';
          ns = Namespace (cdMeta cd)
      in case Get (kruiseClient c) ns primaryName s of
           (Inl err, s1) \<Rightarrow>
             (Some (Errorf_w ''cloneset %s.%s get query error: %w'' [ArgS primaryName, ArgS ns] err), s1)
         | (Inr primary, s1) \<Rightarrow>
             (case snd (isCloneSetReady P c primary (GetProgressDeadlineSeconds cd) s1) of
                Some err \<Rightarrow>
                  (Some (Errorf_w ''%s.%s not ready: %w'' [ArgS primaryName, ArgS ns] err), s1)
              | None \<Rightarrow>
                  (case int32p P 0 s1 of
                     (zero, s2) \<Rightarrow>
                       if ptr_eq (Replicas (csSpec primary)) (Some zero) then
                         (Some (Errorf ''halt %s.%s advancement: primary cloneset is scaled to zero''
                                  [ArgS (Name (cdMeta cd)), ArgS ns]), s2)
                       else (None, s2))))"

definition IsCanaryReady ::
  "'s Pkg \<Rightarrow> ('s, 'r) CloneSetController \<Rightarrow> Canary \<Rightarrow> 's \<Rightarrow> (bool \<times> error option) \<times> 's" where
  "IsCanaryReady P c cd s =
     (let targetName = TargetRef_Name cd;
          ns = Namespace (cdMeta cd)
      in case Get (kruiseClient c) ns targetName s of
           (Inl err, s1) \<Rightarrow>
             ((True, Some (Errorf_w ''cloneset %s.%s get query error: %w'' [ArgS targetName, ArgS ns] err)), s1)
         | (Inr canary, s1) \<Rightarrow>
             (case isCloneSetReady P c canary (GetProgressDeadlineSeconds cd) s1 of
                (retryable, Some err) \<Rightarrow>
                  ((retryable,
                    Some (Errorf_w ''canary cloneset %s.%s not ready: %w'' [ArgS targetName, ArgS ns] err)), s1)
              | (retryable, None) \<Rightarrow> ((True, None), s1)))"

section \<open>Scaling\<close>

definition nodeSelectorOf :: "CloneSet \<Rightarrow> gomap" where
  \<comment> \<open>\<open>cloneset.Spec.Template.Spec.NodeSelector\<close>\<close>
  "nodeSelectorOf cs = NodeSelector (tmplSpec (Template (csSpec cs)))"

definition with_NodeSelector :: "CloneSet \<Rightarrow> gomap \<Rightarrow> CloneSet" where
  \<comment> \<open>the object after \<open>cloneset.Spec.Template.Spec.NodeSelector = m\<close>\<close>
  "with_NodeSelector cs m =
     cs\<lparr>csSpec := (csSpec cs)\<lparr>Template := (Template (csSpec cs))
          \<lparr>tmplSpec := (tmplSpec (Template (csSpec cs)))\<lparr>NodeSelector := m\<rparr>\<rparr>\<rparr>\<rparr>"

definition delete_marker :: "gomap \<Rightarrow> gomap" where
  \<comment> \<open>\<open>for k := range cloneSetScaleDownNodeSelector { delete(m, k) }\<close>\<close>
  "delete_marker m = fold (\<lambda>(k, v) acc. map_delete acc k) cloneSetScaleDownNodeSelector m"

definition ScaleToZero :: "('s, 'r) CloneSetController \<Rightarrow> Canary \<Rightarrow> 's \<Rightarrow> error option \<times> 's" where
  "ScaleToZero c cd s =
     (let targetName = TargetRef_Name cd;
          ns = Namespace (cdMeta cd)
      in case Get (kruiseClient c) ns targetName s of
           (Inl err, s1) \<Rightarrow>
             (Some (Errorf_w ''cloneset %s.%s get query error: %w'' [ArgS targetName, ArgS ns] err), s1)
         | (Inr cloneset, s1) \<Rightarrow>
             (let made = (Map.empty :: string \<rightharpoonup> string);
                  copied = made ++ map_entries (nodeSelectorOf cloneset);
                  marked = fold (\<lambda>(k, v) acc. acc(k \<mapsto> v)) cloneSetScaleDownNodeSelector copied;
                  clonesetCopy = with_NodeSelector cloneset (Some marked)
              in case Update (kruiseClient c) (Namespace (csMeta cloneset)) clonesetCopy s1 of
                   (Inl err, s2) \<Rightarrow>
                     (Some (Errorf_w ''updating cloneset %s.%s failed: %w''
                              [ArgS (Name (csMeta clonesetCopy)), ArgS (Namespace (csMeta clonesetCopy))] err),
                      s2)
                 | (Inr written, s2) \<Rightarrow> (None, s2)))"

definition ScaleFromZero :: "('s, 'r) CloneSetController \<Rightarrow> Canary \<Rightarrow> 's \<Rightarrow> error option \<times> 's" where
  "ScaleFromZero c cd s =
     (let targetName = TargetRef_Name cd;
          ns = Namespace (cdMeta cd)
      in case Get (kruiseClient c) ns targetName s of
           (Inl err, s1) \<Rightarrow>
             (Some (Errorf_w ''cloneset %s.%s query error: %w'' [ArgS targetName, ArgS ns] err), s1)
         | (Inr cloneset, s1) \<Rightarrow>
             (let clonesetCopy = with_NodeSelector cloneset (delete_marker (nodeSelectorOf cloneset))
              in case Update (kruiseClient c) (Namespace (csMeta cloneset)) clonesetCopy s1 of
                   (Inl err, s2) \<Rightarrow>
                     (Some (Errorf_w ''scaling up cloneset %s.%s failed: %w''
                              [ArgS (Name (csMeta clonesetCopy)), ArgS (Namespace (csMeta clonesetCopy))] err),
                      s2)
                 | (Inr written, s2) \<Rightarrow> (None, s2)))"

section \<open>Creating the primary\<close>

definition newPrimaryCloneSet ::
  "'s Pkg \<Rightarrow> ('s, 'r) CloneSetController \<Rightarrow> Canary \<Rightarrow> string list \<Rightarrow> CloneSet \<Rightarrow> string
     \<Rightarrow> string \<Rightarrow> 'r \<Rightarrow> gomap \<Rightarrow> CloneSet" where
  \<comment> \<open>the composite literal \<open>&kruiseappsv1alpha1.CloneSet{...}\<close> of \<open>createPrimaryCloneSet\<close>;
      fields the literal leaves out have their zero value\<close>
  "newPrimaryCloneSet P c cd includeLabelPrefix' canaryCloneset label primaryLabelValue configRefs
       annotations =
     \<lparr> csMeta =
         \<lparr> Name = TargetRef_Name cd @ ''-primary'',
           Namespace = Namespace (cdMeta cd),
           Labels =
             makePrimaryLabels
               (includeLabelsByPrefix P (Labels (csMeta canaryCloneset)) includeLabelPrefix')
               primaryLabelValue label,
           Annotations = Annotations (csMeta canaryCloneset),
           OwnerReferences =
             [NewControllerRef cd (fst SchemeGroupVersion, snd SchemeGroupVersion, CanaryKind)],
           Generation = 0 \<rparr>,
       csSpec =
         \<lparr> Replicas = None,
           Selector = Some \<lparr> MatchLabels = Some [label \<mapsto> primaryLabelValue] \<rparr>,
           Template =
             \<lparr> tmplMeta =
                 \<lparr> Name = '''',
                   Namespace = '''',
                   Labels =
                     makePrimaryLabels (Labels (tmplMeta (Template (csSpec canaryCloneset))))
                       primaryLabelValue label,
                   Annotations = annotations,
                   OwnerReferences = [],
                   Generation = 0 \<rparr>,
               tmplSpec =
                 ApplyPrimaryConfigs (configTracker c) (tmplSpec (Template (csSpec canaryCloneset)))
                   configRefs \<rparr>,
           MinReadySeconds = MinReadySeconds (csSpec canaryCloneset),
           RevisionHistoryLimit = RevisionHistoryLimit (csSpec canaryCloneset),
           UpdateStrategy = UpdateStrategy (csSpec canaryCloneset) \<rparr>,
       csStatus =
         \<lparr> ObservedGeneration = 0, statusReplicas = 0, UpdatedReplicas = 0,
           AvailableReplicas = 0 \<rparr> \<rparr>"

definition createPrimaryCloneSet ::
  "'s Pkg \<Rightarrow> ('s, 'r) CloneSetController \<Rightarrow> Canary \<Rightarrow> string list \<Rightarrow> 's \<Rightarrow> error option \<times> 's" where
  "createPrimaryCloneSet P c cd includeLabelPrefix' s =
     (let targetName = TargetRef_Name cd;
          primaryName = TargetRef_Name cd @ ''-primary'';
          ns = Namespace (cdMeta cd)
      in case Get (kruiseClient c) ns targetName s of
           (Inl err, s1) \<Rightarrow>
             (Some (Errorf_w ''cloneset %s.%s get query error: %w'' [ArgS targetName, ArgS ns] err), s1)
         | (Inr canaryCloneset, s1) \<Rightarrow>
             if strategyType (UpdateStrategy (csSpec canaryCloneset)) \<noteq> ''''
                \<and> strategyType (UpdateStrategy (csSpec canaryCloneset))
                    \<noteq> RecreateCloneSetUpdateStrategyType
             then
               (Some (Errorf ''cloneset %s.%s must have RollingUpdate strategy but have %s''
                        [ArgS targetName, ArgS ns, ArgS (strategyType (UpdateStrategy (csSpec canaryCloneset)))]),
                s1)
             else
               (case getSelectorLabel c canaryCloneset of
                  Inl err \<Rightarrow> (Some (Errorf_w ''getSelectorLabel failed: %w'' [] err), s1)
                | Inr (label, labelValue) \<Rightarrow>
                    (let primaryLabelValue = labelValue @ ''-primary''
                     in case Get (kruiseClient c) ns primaryName s1 of
                          (Inr existing, s2) \<Rightarrow> (None, s2)
                        | (Inl geterr, s2) \<Rightarrow>
                            if IsNotFound geterr then
                              (case GetTargetConfigs (configTracker c) cd s2 of
                                 (Inl err, s3) \<Rightarrow>
                                   (Some (Errorf_w ''GetTargetConfigs failed: %w'' [] err), s3)
                               | (Inr configRefs, s3) \<Rightarrow>
                                   (case CreatePrimaryConfigs (configTracker c) cd configRefs
                                           (includeLabelPrefix c) s3 of
                                      (Some err, s4) \<Rightarrow>
                                        (Some (Errorf_w ''CreatePrimaryConfigs failed: %w'' [] err), s4)
                                    | (None, s4) \<Rightarrow>
                                        (case makeAnnotations P
                                                (Annotations (tmplMeta (Template (csSpec canaryCloneset))))
                                                s4 of
                                           (Inl err, s5) \<Rightarrow>
                                             (Some (Errorf_w ''makeAnnotations failed: %w'' [] err), s5)
                                         | (Inr annotations, s5) \<Rightarrow>
                                             (let primaryCloneset =
                                                    newPrimaryCloneSet P c cd includeLabelPrefix'
                                                      canaryCloneset label primaryLabelValue configRefs
                                                      annotations
                                              in case Create (kruiseClient c) ns primaryCloneset s5 of
                                                   (Inl err, s6) \<Rightarrow>
                                                     (Some (Errorf_w ''creating cloneset %s.%s failed: %w''
                                                              [ArgS (Name (csMeta primaryCloneset)), ArgS ns] err),
                                                      s6)
                                                 | (Inr created, s6) \<Rightarrow>
                                                     (None,
                                                      logger_Infof c
                                                        (Name (cdMeta cd) @ ''.'' @ ns)
                                                        (''CloneSet '' @ Name (csMeta primaryCloneset)
                                                           @ ''.'' @ ns @ '' created'')
                                                        s6)))))
                            else (None, s2))))"

section \<open>Initialize, Promote, drift detection, metadata, Finalize\<close>

definition Initialize ::
  "'s Pkg \<Rightarrow> ('s, 'r) CloneSetController \<Rightarrow> Canary \<Rightarrow> 's \<Rightarrow> error option \<times> 's" where
  "Initialize P c cd s =
     (case createPrimaryCloneSet P c cd (includeLabelPrefix c) s of
        (Some err, s1) \<Rightarrow> (Some (Errorf_w ''createPrimaryCloneSet failed: %w'' [] err), s1)
      | (None, s1) \<Rightarrow>
          if Status_Phase cd = '''' \<or> Status_Phase cd = CanaryPhaseInitializing then
            (case (if SkipAnalysis cd then (None, s1) else IsPrimaryReady P c cd s1) of
               (Some err, s2) \<Rightarrow> (Some (Errorf_w ''%w'' [] err), s2)
             | (None, s2) \<Rightarrow>
                 (let s3 = logger_Infof c
                             (Name (cdMeta cd) @ ''.'' @ Namespace (cdMeta cd))
                             (''Scaling down CloneSet '' @ TargetRef_Name cd @ ''.''
                                @ Namespace (cdMeta cd))
                             s2
                  in case ScaleToZero c cd s3 of
                       (Some err, s4) \<Rightarrow> (Some (Errorf_w ''ScaleToZero failed: %w'' [] err), s4)
                     | (None, s4) \<Rightarrow> (None, s4)))
          else (None, s1))"

definition Promote ::
  "'s Pkg \<Rightarrow> ('s, 'r) CloneSetController \<Rightarrow> Canary \<Rightarrow> 's \<Rightarrow> error option \<times> 's" where
  "Promote P c cd s =
     (let targetName = TargetRef_Name cd;
          primaryName = targetName @ ''-primary'';
          ns = Namespace (cdMeta cd)
      in case Get (kruiseClient c) ns targetName s of
           (Inl err, s1) \<Rightarrow>
             (Some (Errorf_v ''cloneset %s.%s get query error: %v'' [ArgS targetName, ArgS ns] err), s1)
         | (Inr canary, s1) \<Rightarrow>
             (case getSelectorLabel c canary of
                Inl err \<Rightarrow> (Some (Errorf_w ''getSelectorLabel failed: %w'' [] err), s1)
              | Inr (label, labelValue) \<Rightarrow>
                  (let primaryLabelValue = labelValue @ ''-primary''
                   in case Get (kruiseClient c) ns primaryName s1 of
                        (Inl err, s2) \<Rightarrow>
                          (Some (Errorf_w ''cloneset %s.%s get query error: %w''
                                   [ArgS primaryName, ArgS ns] err), s2)
                      | (Inr primary, s2) \<Rightarrow>
                          (case GetTargetConfigs (configTracker c) cd s2 of
                             (Inl err, s3) \<Rightarrow>
                               (Some (Errorf_w ''GetTargetConfigs failed: %w'' [] err), s3)
                           | (Inr configRefs, s3) \<Rightarrow>
                               (case CreatePrimaryConfigs (configTracker c) cd configRefs
                                       (includeLabelPrefix c) s3 of
                                  (Some err, s4) \<Rightarrow>
                                    (Some (Errorf_w ''CreatePrimaryConfigs failed: %w'' [] err), s4)
                                | (None, s4) \<Rightarrow>
                                    (let copy1 =
                                           primary\<lparr>csSpec := (csSpec primary)
                                             \<lparr>MinReadySeconds := MinReadySeconds (csSpec canary),
                                              RevisionHistoryLimit := RevisionHistoryLimit (csSpec canary),
                                              UpdateStrategy := UpdateStrategy (csSpec canary)\<rparr>\<rparr>;
                                         copy2 =
                                           copy1\<lparr>csSpec := (csSpec copy1)
                                             \<lparr>Template := (Template (csSpec copy1))
                                                \<lparr>tmplSpec :=
                                                   ApplyPrimaryConfigs (configTracker c)
                                                     (tmplSpec (Template (csSpec canary))) configRefs\<rparr>\<rparr>\<rparr>;
                                         copy3 = with_NodeSelector copy2 (delete_marker (nodeSelectorOf copy2))
                                     in case makeAnnotations P
                                               (Annotations (tmplMeta (Template (csSpec canary)))) s4 of
                                          (Inl err, s5) \<Rightarrow>
                                            (Some (Errorf_w ''makeAnnotations failed: %w'' [] err), s5)
                                        | (Inr annotations, s5) \<Rightarrow>
                                            (let primaryCopy =
                                                   copy3\<lparr>csSpec := (csSpec copy3)
                                                     \<lparr>Template := (Template (csSpec copy3))
                                                        \<lparr>tmplMeta := (tmplMeta (Template (csSpec copy3)))
                                                           \<lparr>Annotations := annotations,
                                                            Labels :=
                                                              makePrimaryLabels
                                                                (Labels (tmplMeta (Template (csSpec canary))))
                                                                primaryLabelValue label\<rparr>\<rparr>\<rparr>\<rparr>
                                             in case Update (kruiseClient c) ns primaryCopy s5 of
                                                  (Inl err, s6) \<Rightarrow>
                                                    (Some (Errorf_w
                                                             ''updating cloneset %s.%s template spec failed: %w''
                                                             [ArgS (Name (csMeta primaryCopy)),
                                                              ArgS (Namespace (csMeta primaryCopy))] err),
                                                     s6)
                                                | (Inr written, s6) \<Rightarrow> (None, s6))))))))"

definition HasTargetChanged ::
  "'s Pkg \<Rightarrow> ('s, 'r) CloneSetController \<Rightarrow> Canary \<Rightarrow> 's \<Rightarrow> (bool \<times> error option) \<times> 's" where
  "HasTargetChanged P c cd s =
     (let targetName = TargetRef_Name cd;
          ns = Namespace (cdMeta cd)
      in case Get (kruiseClient c) ns targetName s of
           (Inl err, s1) \<Rightarrow>
             ((False, Some (Errorf_w ''cloneset %s.%s get query error: %w'' [ArgS targetName, ArgS ns] err)),
              s1)
         | (Inr canary, s1) \<Rightarrow>
             (let canary1 = with_NodeSelector canary (delete_marker (nodeSelectorOf canary));
                  canary2 =
                    (case nodeSelectorOf canary1 of
                       None \<Rightarrow> with_NodeSelector canary1 (Some Map.empty)
                     | Some m \<Rightarrow> canary1)
              in (hasSpecChanged P cd (Template (csSpec canary2)), s1)))"

definition GetMetadata ::
  "'s Pkg \<Rightarrow> ('s, 'r) CloneSetController \<Rightarrow> Canary \<Rightarrow> 's
     \<Rightarrow> (string \<times> string \<times> (string \<rightharpoonup> int32) option \<times> error option) \<times> 's" where
  "GetMetadata P c cd s =
     (let targetName = TargetRef_Name cd;
          ns = Namespace (cdMeta cd)
      in case Get (kruiseClient c) ns targetName s of
           (Inl err, s1) \<Rightarrow>
             (('''', '''', None,
               Some (Errorf_w ''cloneset %s.%s get query error: %w'' [ArgS targetName, ArgS ns] err)), s1)
         | (Inr canaryCloneset, s1) \<Rightarrow>
             (case getSelectorLabel c canaryCloneset of
                Inl err \<Rightarrow> (('''', '''', None, Some (Errorf_w ''getSelectorLabel failed: %w'' [] err)), s1)
              | Inr (label, labelValue) \<Rightarrow>
                  (let ports =
                         (if Service_PortDiscovery cd
                          then getPorts P cd (Containers (tmplSpec (Template (csSpec canaryCloneset))))
                          else None)
                   in ((label, labelValue, ports, None), s1))))"

definition HaveDependenciesChanged ::
  "('s, 'r) CloneSetController \<Rightarrow> Canary \<Rightarrow> 's \<Rightarrow> (bool \<times> error option) \<times> 's" where
  "HaveDependenciesChanged c cd s = HasConfigChanged (configTracker c) cd s"

definition Finalize :: "('s, 'r) CloneSetController \<Rightarrow> Canary \<Rightarrow> 's \<Rightarrow> error option \<times> 's" where
  "Finalize c cd s =
     (case ScaleFromZero c cd s of
        (Some err, s1) \<Rightarrow> (Some (Errorf_w ''ScaleFromZero failed: %w'' [] err), s1)
      | (None, s1) \<Rightarrow> (None, s1))"

section \<open>A cluster to run the controller against\<close>

text \<open>
  An in-memory cluster in the manner of the fake clientset used by controller tests:
  a store of CloneSets keyed by namespace and name, the list of requests received, and a
  fault plan that makes the \<open>n\<close>-th request fail with a chosen error (so that any
  sequence of API failures can be played). \<open>next_addr\<close> is the allocation pointer of
  the process heap, \<open>clock\<close> the wall clock, \<open>infos\<close> what the logger has written.
\<close>

datatype request =
    GetReq string string
  | CreateReq string CloneSet
  | UpdateReq string CloneSet

record world =
  objects :: "string \<times> string \<rightharpoonup> CloneSet"
  requests :: "request list"
  faults :: "nat \<Rightarrow> error option"
  next_addr :: nat
  clock :: int
  infos :: "(string \<times> string) list"

definition fakeGet :: "string \<Rightarrow> string \<Rightarrow> world \<Rightarrow> (error + CloneSet) \<times> world" where
  "fakeGet ns name w =
     (let w' = w\<lparr>requests := requests w @ [GetReq ns name]\<rparr>
      in case faults w (length (requests w)) of
           Some err \<Rightarrow> (Inl err, w')
         | None \<Rightarrow>
             (case objects w (ns, name) of
                None \<Rightarrow> (Inl (StatusError StatusReasonNotFound (''clonesets '' @ name @ '' not found'')), w')
              | Some obj \<Rightarrow> (Inr obj, w')))"

definition fakeCreate :: "string \<Rightarrow> CloneSet \<Rightarrow> world \<Rightarrow> (error + CloneSet) \<times> world" where
  "fakeCreate ns obj w =
     (let w' = w\<lparr>requests := requests w @ [CreateReq ns obj]\<rparr>
      in case faults w (length (requests w)) of
           Some err \<Rightarrow> (Inl err, w')
         | None \<Rightarrow>
             (case objects w (ns, Name (csMeta obj)) of
                Some old \<Rightarrow>
                  (Inl (StatusError StatusReasonAlreadyExists
                          (''clonesets '' @ Name (csMeta obj) @ '' already exists'')), w')
              | None \<Rightarrow> (Inr obj, w'\<lparr>objects := (objects w)((ns, Name (csMeta obj)) \<mapsto> obj)\<rparr>)))"

definition fakeUpdate :: "string \<Rightarrow> CloneSet \<Rightarrow> world \<Rightarrow> (error + CloneSet) \<times> world" where
  "fakeUpdate ns obj w =
     (let w' = w\<lparr>requests := requests w @ [UpdateReq ns obj]\<rparr>
      in case faults w (length (requests w)) of
           Some err \<Rightarrow> (Inl err, w')
         | None \<Rightarrow>
             (case objects w (ns, Name (csMeta obj)) of
                None \<Rightarrow>
                  (Inl (StatusError StatusReasonNotFound
                          (''clonesets '' @ Name (csMeta obj) @ '' not found'')), w')
              | Some old \<Rightarrow> (Inr obj, w'\<lparr>objects := (objects w)((ns, Name (csMeta obj)) \<mapsto> obj)\<rparr>)))"

definition fakeClient :: "world KruiseClient" where
  "fakeClient = \<lparr> Get = fakeGet, Create = fakeCreate, Update = fakeUpdate \<rparr>"

definition noConfigs :: "(world, unit) Tracker" where
  \<comment> \<open>the config tracker of a target that references no secret and no config map\<close>
  "noConfigs =
     \<lparr> GetTargetConfigs = (\<lambda>cd w. (Inr (), w)),
       CreatePrimaryConfigs = (\<lambda>cd refs prefixes w. (None, w)),
       ApplyPrimaryConfigs = (\<lambda>spec refs. spec),
       HasConfigChanged = (\<lambda>cd w. ((False, None), w)) \<rparr>"

definition new_int32 :: "int32 \<Rightarrow> world \<Rightarrow> int32_ref \<times> world" where
  \<comment> \<open>\<open>int32p\<close> as the address of its own parameter: a pointer to a cell that no object
      fetched earlier can hold\<close>
  "new_int32 i w = (\<lparr> addr = next_addr w, deref = i \<rparr>, w\<lparr>next_addr := Suc (next_addr w)\<rparr>)"

definition templateHash :: "PodTemplateSpec \<Rightarrow> string" where
  \<comment> \<open>a stand-in for the structural hash: it tells a nil node selector from an allocated
      one, a marked selector from an unmarked one, and one image from another\<close>
  "templateHash t =
     (case NodeSelector (tmplSpec t) of
        None \<Rightarrow> ''nil''
      | Some m \<Rightarrow> (case m ''flagger.app/scale-to-zero'' of None \<Rightarrow> ''map'' | Some v \<Rightarrow> ''zero:'' @ v))
     @ concat (map containerImage (Containers (tmplSpec t)))"

definition fakePkg :: "world Pkg" where
  "fakePkg =
     \<lparr> time_Now = clock,
       int32p = new_int32,
       makeAnnotations = (\<lambda>a w. (Inr (Some ((map_entries a)(''flagger-id'' \<mapsto> ''0001''))), w)),
       includeLabelsByPrefix = (\<lambda>ls prefixes. ls),
       getPorts = (\<lambda>cd cs. None),
       hasSpecChanged = (\<lambda>cd t. (Status_LastAppliedSpec cd \<noteq> templateHash t, None)) \<rparr>"

definition demoController :: "string list \<Rightarrow> (world, unit) CloneSetController" where
  "demoController ls =
     \<lparr> kruiseClient = fakeClient,
       logger_Infof = (\<lambda>k msg w. w\<lparr>infos := infos w @ [(k, msg)]\<rparr>),
       configTracker = noConfigs,
       labels = ls,
       includeLabelPrefix = [] \<rparr>"

definition demoCanary :: "string \<Rightarrow> bool \<Rightarrow> string \<Rightarrow> Canary" where
  \<comment> \<open>the canary \<open>demo.ns\<close> for the target \<open>demo\<close>, in the given phase\<close>
  "demoCanary phase skip recorded =
     \<lparr> cdMeta = \<lparr> Name = ''demo'', Namespace = ''ns'', Labels = None, Annotations = None,
                  OwnerReferences = [], Generation = 1 \<rparr>,
       TargetRef_Name = ''demo'',
       Service_PortDiscovery = False,
       Status_Phase = phase,
       Status_LastAppliedSpec = recorded,
       SkipAnalysis = skip,
       GetProgressDeadlineSeconds = 600 \<rparr>"

definition demoCloneSet ::
  "string \<Rightarrow> (string \<times> string) list \<Rightarrow> gomap \<Rightarrow> string \<Rightarrow> int32 \<Rightarrow> int32_ref option \<Rightarrow> CloneSet" where
  \<comment> \<open>a CloneSet in namespace \<open>ns\<close> running one container, observed by its controller, with
      no pods\<close>
  "demoCloneSet name matchLabels nodeSelector strategy minReady replicas =
     \<lparr> csMeta = \<lparr> Name = name, Namespace = ''ns'', Labels = Some (map_of matchLabels),
                  Annotations = None, OwnerReferences = [], Generation = 1 \<rparr>,
       csSpec =
         \<lparr> Replicas = replicas,
           Selector = Some \<lparr> MatchLabels = Some (map_of matchLabels) \<rparr>,
           Template =
             \<lparr> tmplMeta = \<lparr> Name = '''', Namespace = '''', Labels = Some (map_of matchLabels),
                            Annotations = None, OwnerReferences = [], Generation = 0 \<rparr>,
               tmplSpec = \<lparr> NodeSelector = nodeSelector,
                            Containers = [\<lparr> containerName = ''app'', containerImage = ''app:1.0'' \<rparr>] \<rparr> \<rparr>,
           MinReadySeconds = minReady,
           RevisionHistoryLimit = None,
           UpdateStrategy = \<lparr> strategyType = strategy, strategyPartition = None,
                              strategyPaused = False \<rparr> \<rparr>,
       csStatus = \<lparr> ObservedGeneration = 1, statusReplicas = 0, UpdatedReplicas = 0,
                    AvailableReplicas = 0 \<rparr> \<rparr>"

definition demoWorld :: "CloneSet list \<Rightarrow> (nat \<Rightarrow> error option) \<Rightarrow> world" where
  \<comment> \<open>a cluster holding the given CloneSets, each under its own namespace and name\<close>
  "demoWorld objs plan =
     \<lparr> objects = map_of (map (\<lambda>obj. ((Namespace (csMeta obj), Name (csMeta obj)), obj)) objs),
       requests = [],
       faults = plan,
       next_addr = 16,
       clock = 0,
       infos = [] \<rparr>"

definition storedNodeSelector :: "world \<Rightarrow> string \<Rightarrow> string \<Rightarrow> (string \<rightharpoonup> string)" where
  \<comment> \<open>the entries of the node selector of the stored CloneSet, a nil map read as empty\<close>
  "storedNodeSelector w ns name =
     (case objects w (ns, name) of None \<Rightarrow> Map.empty | Some obj \<Rightarrow> map_entries (nodeSelectorOf obj))"

definition noFaults :: "nat \<Rightarrow> error option" where
  "noFaults n = None"

definition failAt :: "nat \<Rightarrow> error \<Rightarrow> nat \<Rightarrow> error option" where
  \<comment> \<open>the fault plan in which only request number \<open>k\<close> (from 0) fails\<close>
  "failAt k err n = (if n = k then Some err else None)"

section \<open>Facts about the in-memory cluster\<close>

lemma delete_marker_eq:
  "delete_marker m = map_delete m ''flagger.app/scale-to-zero''"
  by (simp add: delete_marker_def cloneSetScaleDownNodeSelector_def)

lemma map_entries_simps [simp]:
  "map_entries None = Map.empty" "map_entries (Some f) = f"
  by (simp_all add: map_entries_def)

lemma map_entries_delete [simp]:
  "map_entries (map_delete m k) = (map_entries m)(k := None)"
  by (cases m) (simp_all add: map_delete_def)

lemma map_index_entries:
  "map_index m k = map_entries m k"
  by (cases m) (simp_all add: map_index_def)

lemma fakeGet_found:
  "faults w (length (requests w)) = None \<Longrightarrow> objects w (ns, name) = Some obj \<Longrightarrow>
   fakeGet ns name w = (Inr obj, w\<lparr>requests := requests w @ [GetReq ns name]\<rparr>)"
  by (simp add: fakeGet_def)

lemma fakeUpdate_found:
  "faults w (length (requests w)) = None \<Longrightarrow> objects w (ns, Name (csMeta obj)) = Some old \<Longrightarrow>
   fakeUpdate ns obj w =
     (Inr obj, w\<lparr>requests := requests w @ [UpdateReq ns obj],
                objects := (objects w)((ns, Name (csMeta obj)) \<mapsto> obj)\<rparr>)"
  by (simp add: fakeUpdate_def)

lemma with_NodeSelector_meta [simp]:
  "csMeta (with_NodeSelector cs m) = csMeta cs"
  by (simp add: with_NodeSelector_def)

lemma nodeSelectorOf_with [simp]:
  "nodeSelectorOf (with_NodeSelector cs m) = m"
  by (simp add: with_NodeSelector_def nodeSelectorOf_def)

lemma ScaleToZero_fake:
  assumes "kruiseClient c = fakeClient"
    and "objects w (Namespace (cdMeta cd), TargetRef_Name cd) = Some cs"
    and "Name (csMeta cs) = TargetRef_Name cd"
    and "Namespace (csMeta cs) = Namespace (cdMeta cd)"
    and "\<forall>n. faults w n = None"
  shows "ScaleToZero c cd w =
    (None,
     w\<lparr>requests := requests w @
          [GetReq (Namespace (cdMeta cd)) (TargetRef_Name cd),
           UpdateReq (Namespace (cdMeta cd))
             (with_NodeSelector cs
                (Some ((map_entries (nodeSelectorOf cs))(''flagger.app/scale-to-zero'' \<mapsto> ''true''))))],
        objects := (objects w)((Namespace (cdMeta cd), TargetRef_Name cd) \<mapsto>
             with_NodeSelector cs
                (Some ((map_entries (nodeSelectorOf cs))(''flagger.app/scale-to-zero'' \<mapsto> ''true''))))\<rparr>)"
  using assms
  by (simp add: ScaleToZero_def fakeClient_def fakeGet_found fakeUpdate_found Let_def
      cloneSetScaleDownNodeSelector_def)

lemma ScaleFromZero_fake:
  assumes "kruiseClient c = fakeClient"
    and "objects w (Namespace (cdMeta cd), TargetRef_Name cd) = Some cs"
    and "Name (csMeta cs) = TargetRef_Name cd"
    and "Namespace (csMeta cs) = Namespace (cdMeta cd)"
    and "\<forall>n. faults w n = None"
  shows "ScaleFromZero c cd w =
    (None,
     w\<lparr>requests := requests w @
          [GetReq (Namespace (cdMeta cd)) (TargetRef_Name cd),
           UpdateReq (Namespace (cdMeta cd))
             (with_NodeSelector cs (map_delete (nodeSelectorOf cs) ''flagger.app/scale-to-zero''))],
        objects := (objects w)((Namespace (cdMeta cd), TargetRef_Name cd) \<mapsto>
             with_NodeSelector cs (map_delete (nodeSelectorOf cs) ''flagger.app/scale-to-zero''))\<rparr>)"
  using assms
  by (simp add: ScaleFromZero_def fakeClient_def fakeGet_found fakeUpdate_found Let_def
      delete_marker_eq)

section \<open>Unfolding the sample cluster\<close>

lemmas demo_defs =
  demoWorld_def demoCloneSet_def demoController_def demoCanary_def noFaults_def failAt_def
  fakeClient_def fakeGet_def fakeCreate_def fakeUpdate_def fakePkg_def noConfigs_def new_int32_def

section \<open>Selector resolution\<close>

lemma getSelectorLabel_loop_find:
  "Selector (csSpec cs) = Some sel \<Longrightarrow>
   getSelectorLabel_loop L cs =
     (case find (\<lambda>l. map_index (MatchLabels sel) l \<noteq> None) L of
        None \<Rightarrow> None
      | Some k \<Rightarrow> Some (Inr (k, the (map_index (MatchLabels sel) k))))"
  by (induction L) (auto split: option.splits)

lemma find_only:
  assumes "k \<in> set L" and "R k" and "\<forall>l\<in>set L. R l \<longrightarrow> l = k"
  shows "find R L = Some k"
  using assms
proof (induction L)
  case Nil
  then show ?case by simp
next
  case (Cons a L)
  show ?case
  proof (cases "R a")
    case True
    with Cons.prems(3) have "a = k" by simp
    with True show ?thesis by simp
  next
    case False
    with Cons.prems(1,2) have "k \<in> set L" by auto
    moreover from Cons.prems(3) have "\<forall>l\<in>set L. R l \<longrightarrow> l = k" by simp
    ultimately have "find R L = Some k" using Cons.IH Cons.prems(2) by blast
    with False show ?thesis by simp
  qed
qed

theorem getSelectorLabel_two_keys_counterexample:
  "map_index (Some [''app'' \<mapsto> ''a'', ''name'' \<mapsto> ''b'']) ''app'' = Some ''a''
   \<and> map_index (Some [''app'' \<mapsto> ''a'', ''name'' \<mapsto> ''b'']) ''name'' = Some ''b''
   \<and> getSelectorLabel (demoController [''app'', ''name''])
        (demoCloneSet ''demo'' [(''name'', ''b''), (''app'', ''a'')] None '''' 0 None)
      = Inr (''app'', ''a'')"
  by (simp add: getSelectorLabel_def demoController_def demoCloneSet_def map_index_def)

text \<open>
  Claim C3, amended. For a target that has a selector, and every list of candidate label
  keys: if exactly one candidate is a key of the match-labels, \<open>getSelectorLabel\<close>
  returns that key and its value; if no candidate is, it fails with the configuration
  error; and whenever some candidate is present (one or several), it returns the first
  present candidate in list order with its value, so several present candidates are not an
  error.
\<close>

theorem getSelectorLabel_first_match:
  assumes "Selector (csSpec cloneSet) = Some sel"
  shows
    "(\<forall>k v. k \<in> set (labels c) \<and> map_index (MatchLabels sel) k = Some v
            \<and> (\<forall>l\<in>set (labels c). map_index (MatchLabels sel) l \<noteq> None \<longrightarrow> l = k)
          \<longrightarrow> getSelectorLabel c cloneSet = Inr (k, v))
     \<and> ((\<forall>l\<in>set (labels c). map_index (MatchLabels sel) l = None)
          \<longrightarrow> getSelectorLabel c cloneSet =
              Inl (Errorf (''cloneset %s.%s spec.selector.matchLabels must contain one of %v'' @ [CHR 0x27])
                     [ArgS (Name (csMeta cloneSet)), ArgS (Namespace (csMeta cloneSet)),
                      ArgStrs (labels c)]))
     \<and> (\<forall>k. find (\<lambda>l. map_index (MatchLabels sel) l \<noteq> None) (labels c) = Some k
          \<longrightarrow> (\<exists>v. map_index (MatchLabels sel) k = Some v
                   \<and> getSelectorLabel c cloneSet = Inr (k, v)))"
proof (intro conjI allI impI)
  fix k v
  assume h: "k \<in> set (labels c) \<and> map_index (MatchLabels sel) k = Some v
            \<and> (\<forall>l\<in>set (labels c). map_index (MatchLabels sel) l \<noteq> None \<longrightarrow> l = k)"
  then have "find (\<lambda>l. map_index (MatchLabels sel) l \<noteq> None) (labels c) = Some k"
    by (intro find_only) auto
  with h show "getSelectorLabel c cloneSet = Inr (k, v)"
    by (simp add: getSelectorLabel_def getSelectorLabel_loop_find [OF assms])
next
  assume "\<forall>l\<in>set (labels c). map_index (MatchLabels sel) l = None"
  then have "find (\<lambda>l. map_index (MatchLabels sel) l \<noteq> None) (labels c) = None"
    by (simp add: find_None_iff)
  then show "getSelectorLabel c cloneSet =
              Inl (Errorf (''cloneset %s.%s spec.selector.matchLabels must contain one of %v'' @ [CHR 0x27])
                     [ArgS (Name (csMeta cloneSet)), ArgS (Namespace (csMeta cloneSet)),
                      ArgStrs (labels c)])"
    by (simp add: getSelectorLabel_def getSelectorLabel_loop_find [OF assms])
next
  fix k
  assume f: "find (\<lambda>l. map_index (MatchLabels sel) l \<noteq> None) (labels c) = Some k"
  then have "map_index (MatchLabels sel) k \<noteq> None"
    by (auto simp: find_Some_iff)
  then obtain v where v: "map_index (MatchLabels sel) k = Some v"
    by auto
  with f show "\<exists>v. map_index (MatchLabels sel) k = Some v \<and> getSelectorLabel c cloneSet = Inr (k, v)"
    by (simp add: getSelectorLabel_def getSelectorLabel_loop_find [OF assms])
qed

theorem getSelectorLabel_first_match_witness:
  "getSelectorLabel (demoController [''app'', ''name''])
     (demoCloneSet ''demo'' [(''name'', ''b'')] None '''' 0 None) = Inr (''name'', ''b'')
   \<and> getSelectorLabel (demoController [''app'', ''name''])
     (demoCloneSet ''demo'' [(''tier'', ''web'')] None '''' 0 None)
      = Inl (Errorf (''cloneset %s.%s spec.selector.matchLabels must contain one of %v'' @ [CHR 0x27])
               [ArgS ''demo'', ArgS ''ns'', ArgStrs [''app'', ''name'']])
   \<and> (\<exists>v. map_index (MatchLabels \<lparr> MatchLabels = Some (map_of [(''name'', ''b''), (''app'', ''a'')]) \<rparr>)
              ''app'' = Some v
          \<and> getSelectorLabel (demoController [''app'', ''name''])
               (demoCloneSet ''demo'' [(''name'', ''b''), (''app'', ''a'')] None '''' 0 None)
             = Inr (''app'', v))"
proof -
  let ?c = "demoController [''app'', ''name'']"
  have sel: "Selector (csSpec (demoCloneSet ''demo'' ml None '''' 0 None))
               = Some \<lparr> MatchLabels = Some (map_of ml) \<rparr>" for ml
    by (simp add: demoCloneSet_def)
  have l: "labels ?c = [''app'', ''name'']"
    by (simp add: demoController_def)
  note t = getSelectorLabel_first_match [OF sel, where c = ?c]
  have one: "getSelectorLabel ?c (demoCloneSet ''demo'' [(''name'', ''b'')] None '''' 0 None)
               = Inr (''name'', ''b'')"
    by (rule t [THEN conjunct1, rule_format]) (simp add: l map_index_def)
  have "getSelectorLabel ?c (demoCloneSet ''demo'' [(''tier'', ''web'')] None '''' 0 None)
      = Inl (Errorf (''cloneset %s.%s spec.selector.matchLabels must contain one of %v'' @ [CHR 0x27])
               [ArgS (Name (csMeta (demoCloneSet ''demo'' [(''tier'', ''web'')] None '''' 0 None))),
                ArgS (Namespace (csMeta (demoCloneSet ''demo'' [(''tier'', ''web'')] None '''' 0 None))),
                ArgStrs (labels ?c)])"
    by (rule t [THEN conjunct2, THEN conjunct1, rule_format]) (auto simp: l map_index_def)
  then have zero: "getSelectorLabel ?c (demoCloneSet ''demo'' [(''tier'', ''web'')] None '''' 0 None)
      = Inl (Errorf (''cloneset %s.%s spec.selector.matchLabels must contain one of %v'' @ [CHR 0x27])
               [ArgS ''demo'', ArgS ''ns'', ArgStrs [''app'', ''name'']])"
    by (simp add: l demoCloneSet_def)
  have two: "\<exists>v. map_index (MatchLabels \<lparr> MatchLabels = Some (map_of [(''name'', ''b''), (''app'', ''a'')]) \<rparr>)
              ''app'' = Some v
          \<and> getSelectorLabel ?c
               (demoCloneSet ''demo'' [(''name'', ''b''), (''app'', ''a'')] None '''' 0 None)
             = Inr (''app'', v)"
    by (rule t [THEN conjunct2, THEN conjunct2, rule_format]) (simp add: l map_index_def)
  show ?thesis
    by (rule conjI [OF one conjI [OF zero two]])
qed

section \<open>Readiness\<close>

text \<open>
  Claim C4. For the CloneSet variant the condition lookup returns no condition, for every
  controller; hence for every CloneSet, deadline and state \<open>isCloneSetReady\<close> returns
  \<open>retriable = true\<close>, and the error it returns is never the
  "exceeded its progress deadline" verdict.
\<close>

theorem isCloneSetReady_deadline_rules_unreachable:
  "getCloneSetCondition c = None
   \<and> fst (isCloneSetReady P c cloneSet deadline s) = True
   \<and> (\<forall>args. snd (isCloneSetReady P c cloneSet deadline s)
          \<noteq> Some (Errorf ''cloneset %q exceeded its progress deadline'' args))"
  by (simp add: isCloneSetReady_def getCloneSetCondition_def Let_def split: option.splits)

section \<open>Primary readiness\<close>

text \<open>
  Claim C1. When the primary is fetched and passes the readiness classifier,
  \<open>IsPrimaryReady\<close> is to return the halt error whenever the primary's declared replica
  count is exactly zero. The source compares the pointer \<open>primary.Spec.Replicas\<close> with
  the pointer returned by \<open>int32p(0)\<close>, a cell allocated by that very call, so the
  comparison is false whatever the count is. At a ready primary whose declared replica
  count is zero the function returns no error.
\<close>

theorem IsPrimaryReady_zero_replicas_returns_nil:
  "deref \<lparr> addr = 3, deref = (0::int32) \<rparr> = 0
   \<and> fst (IsPrimaryReady fakePkg (demoController [''app'']) (demoCanary ''Initializing'' False '''')
          (demoWorld [demoCloneSet ''demo-primary'' [(''app'', ''demo-primary'')] None '''' 0
                        (Some \<lparr> addr = 3, deref = 0 \<rparr>)] noFaults))
     = None"
  by (simp add: IsPrimaryReady_def isCloneSetReady_def getCloneSetCondition_def ptr_eq_def Let_def
      demo_defs)

lemma IsPrimaryReady_halt_unreachable:
  assumes "Get (kruiseClient c) (Namespace (cdMeta cd)) (TargetRef_Name cd @ ''-primary'') w
           = (Inr primary, w1)"
    and "snd (isCloneSetReady P c primary (GetProgressDeadlineSeconds cd) w1) = None"
    and "int32p P 0 w1 = (zero, w2)"
    and "map_option addr (Replicas (csSpec primary)) \<noteq> Some (addr zero)"
  shows "IsPrimaryReady P c cd w = (None, w2)"
  using assms
  by (simp add: IsPrimaryReady_def Let_def ptr_eq_def)

section \<open>The strategy guard of primary creation\<close>

lemma createPrimaryCloneSet_strategy_refused:
  assumes "Get (kruiseClient c) (Namespace (cdMeta cd)) (TargetRef_Name cd) s = (Inr canary, s1)"
    and "strategyType (UpdateStrategy (csSpec canary)) \<noteq> ''''"
    and "strategyType (UpdateStrategy (csSpec canary)) \<noteq> RecreateCloneSetUpdateStrategyType"
  shows "createPrimaryCloneSet P c cd prefixes s =
    (Some (Errorf ''cloneset %s.%s must have RollingUpdate strategy but have %s''
             [ArgS (TargetRef_Name cd), ArgS (Namespace (cdMeta cd)),
              ArgS (strategyType (UpdateStrategy (csSpec canary)))]), s1)"
  using assms
  by (simp add: createPrimaryCloneSet_def Let_def)

lemma Errorf_w_other_format:
  "f \<noteq> g \<Longrightarrow> Errorf_w f args err \<noteq> Errorf g args'"
  by (cases err) (simp_all add: Errorf_w_def)

text \<open>
  Claim C2, amended. Before creating the primary, \<open>createPrimaryCloneSet\<close> checks the
  update strategy type the fetched target declares. A type that is neither unset (empty)
  nor the recreate type of the kruise API is refused at once: the configuration error is
  returned in the state reached by the read of the target, so nothing is created. A type
  that is unset or the recreate type is never refused by this check, and creation goes on:
  when the selector label resolves, the primary is not found, and the config tracker, the
  annotation helper and the create call succeed, the primary built from the target has been
  created and nil is returned.
\<close>

theorem createPrimaryCloneSet_strategy_allow_list:
  assumes "Get (kruiseClient c) (Namespace (cdMeta cd)) (TargetRef_Name cd) s = (Inr canary, s1)"
  shows
    "(let ns = Namespace (cdMeta cd);
          ty = strategyType (UpdateStrategy (csSpec canary));
          refused = Errorf ''cloneset %s.%s must have RollingUpdate strategy but have %s''
                      [ArgS (TargetRef_Name cd), ArgS ns, ArgS ty]
      in (ty \<noteq> '''' \<and> ty \<noteq> RecreateCloneSetUpdateStrategyType
            \<longrightarrow> createPrimaryCloneSet P c cd prefixes s = (Some refused, s1))
         \<and> (ty = '''' \<or> ty = RecreateCloneSetUpdateStrategyType
              \<longrightarrow> fst (createPrimaryCloneSet P c cd prefixes s) \<noteq> Some refused
                  \<and> (\<forall>label labelValue e s2 refs s3 s4 anns s5 created s6.
                        getSelectorLabel c canary = Inr (label, labelValue)
                        \<and> Get (kruiseClient c) ns (TargetRef_Name cd @ ''-primary'') s1 = (Inl e, s2)
                        \<and> IsNotFound e
                        \<and> GetTargetConfigs (configTracker c) cd s2 = (Inr refs, s3)
                        \<and> CreatePrimaryConfigs (configTracker c) cd refs (includeLabelPrefix c) s3
                            = (None, s4)
                        \<and> makeAnnotations P (Annotations (tmplMeta (Template (csSpec canary)))) s4
                            = (Inr anns, s5)
                        \<and> Create (kruiseClient c) ns
                              (newPrimaryCloneSet P c cd prefixes canary label
                                 (labelValue @ ''-primary'') refs anns) s5
                            = (Inr created, s6)
                      \<longrightarrow> createPrimaryCloneSet P c cd prefixes s =
                            (None,
                             logger_Infof c (Name (cdMeta cd) @ ''.'' @ ns)
                               (''CloneSet '' @ (TargetRef_Name cd @ ''-primary'') @ ''.'' @ ns
                                  @ '' created'')
                               s6))))"
proof -
  let ?ty = "strategyType (UpdateStrategy (csSpec canary))"
  let ?refused = "Errorf ''cloneset %s.%s must have RollingUpdate strategy but have %s''
                    [ArgS (TargetRef_Name cd), ArgS (Namespace (cdMeta cd)), ArgS ?ty]"
  have no: "createPrimaryCloneSet P c cd prefixes s = (Some ?refused, s1)"
    if "?ty \<noteq> '''' \<and> ?ty \<noteq> RecreateCloneSetUpdateStrategyType"
    using that by (intro createPrimaryCloneSet_strategy_refused [OF assms]) simp_all
  have other: "fst (createPrimaryCloneSet P c cd prefixes s) \<noteq> Some ?refused"
    if "?ty = '''' \<or> ?ty = RecreateCloneSetUpdateStrategyType"
    using that assms
    by (auto simp: createPrimaryCloneSet_def Let_def Errorf_w_other_format
        split: sum.splits prod.splits option.splits)
  have yes: "createPrimaryCloneSet P c cd prefixes s =
       (None,
        logger_Infof c (Name (cdMeta cd) @ ''.'' @ Namespace (cdMeta cd))
          (''CloneSet '' @ (TargetRef_Name cd @ ''-primary'') @ ''.'' @ Namespace (cdMeta cd)
             @ '' created'')
          s6)"
    if "?ty = '''' \<or> ?ty = RecreateCloneSetUpdateStrategyType"
      and "getSelectorLabel c canary = Inr (label, labelValue)
           \<and> Get (kruiseClient c) (Namespace (cdMeta cd)) (TargetRef_Name cd @ ''-primary'') s1
               = (Inl e, s2)
           \<and> IsNotFound e
           \<and> GetTargetConfigs (configTracker c) cd s2 = (Inr refs, s3)
           \<and> CreatePrimaryConfigs (configTracker c) cd refs (includeLabelPrefix c) s3 = (None, s4)
           \<and> makeAnnotations P (Annotations (tmplMeta (Template (csSpec canary)))) s4
               = (Inr anns, s5)
           \<and> Create (kruiseClient c) (Namespace (cdMeta cd))
                 (newPrimaryCloneSet P c cd prefixes canary label (labelValue @ ''-primary'') refs
                    anns) s5
               = (Inr created, s6)"
    for label labelValue e s2 refs s3 s4 anns s5 created s6
    using that assms
    by (auto simp: createPrimaryCloneSet_def Let_def newPrimaryCloneSet_def)
  show ?thesis
    unfolding Let_def
    using no other yes by blast
qed

theorem createPrimaryCloneSet_strategy_allow_list_witness:
  "createPrimaryCloneSet fakePkg (demoController [''app'']) (demoCanary ''Initializing'' False '''') []
     (demoWorld [demoCloneSet ''demo'' [(''app'', ''demo'')] None ''InPlaceIfPossible'' 0 None] noFaults)
   = (Some (Errorf ''cloneset %s.%s must have RollingUpdate strategy but have %s''
              [ArgS ''demo'', ArgS ''ns'', ArgS ''InPlaceIfPossible'']),
      (demoWorld [demoCloneSet ''demo'' [(''app'', ''demo'')] None ''InPlaceIfPossible'' 0 None] noFaults)
        \<lparr>requests := [GetReq ''ns'' ''demo'']\<rparr>)
   \<and> fst (createPrimaryCloneSet fakePkg (demoController [''app''])
            (demoCanary ''Initializing'' False '''') []
            (demoWorld [demoCloneSet ''demo'' [(''app'', ''demo'')] None ''ReCreate'' 0 None] noFaults))
       = None
   \<and> objects (snd (createPrimaryCloneSet fakePkg (demoController [''app''])
            (demoCanary ''Initializing'' False '''') []
            (demoWorld [demoCloneSet ''demo'' [(''app'', ''demo'')] None ''ReCreate'' 0 None] noFaults)))
         (''ns'', ''demo-primary'') \<noteq> None
   \<and> fst (createPrimaryCloneSet fakePkg (demoController [''app''])
            (demoCanary ''Initializing'' False '''') []
            (demoWorld [demoCloneSet ''demo'' [(''app'', ''demo'')] None '''' 0 None] noFaults))
       = None
   \<and> objects (snd (createPrimaryCloneSet fakePkg (demoController [''app''])
            (demoCanary ''Initializing'' False '''') []
            (demoWorld [demoCloneSet ''demo'' [(''app'', ''demo'')] None '''' 0 None] noFaults)))
         (''ns'', ''demo-primary'') \<noteq> None"
proof -
  let ?c = "demoController [''app'']"
  let ?cd = "demoCanary ''Initializing'' False ''''"
  let ?ns = "Namespace (cdMeta ?cd)"
  let ?cs = "\<lambda>ty. demoCloneSet ''demo'' [(''app'', ''demo'')] None ty 0 None"
  let ?w = "\<lambda>ty. demoWorld [?cs ty] noFaults"
  let ?s1 = "\<lambda>ty. (?w ty)\<lparr>requests := [GetReq ''ns'' ''demo'']\<rparr>"
  let ?s2 = "\<lambda>ty. (?w ty)\<lparr>requests := [GetReq ''ns'' ''demo'', GetReq ''ns'' ''demo-primary'']\<rparr>"
  let ?e = "StatusError StatusReasonNotFound ''clonesets demo-primary not found''"
  let ?anns = "Some [''flagger-id'' \<mapsto> ''0001'']"
  let ?new = "\<lambda>ty. newPrimaryCloneSet fakePkg ?c ?cd [] (?cs ty) ''app'' (''demo'' @ ''-primary'') ()
                      ?anns"
  have g1: "Get (kruiseClient ?c) ?ns (TargetRef_Name ?cd) (?w ty) = (Inr (?cs ty), ?s1 ty)" for ty
    by (simp add: demo_defs)
  have sel: "getSelectorLabel ?c (?cs ty) = Inr (''app'', ''demo'')" for ty
    by (simp add: getSelectorLabel_def map_index_def demo_defs)
  have g2: "Get (kruiseClient ?c) ?ns (TargetRef_Name ?cd @ ''-primary'') (?s1 ty) = (Inl ?e, ?s2 ty)"
    for ty
    by (simp add: demo_defs)
  have nf: "IsNotFound ?e"
    by (simp add: IsNotFound_def)
  have t1: "GetTargetConfigs (configTracker ?c) ?cd (?s2 ty) = (Inr (), ?s2 ty)" for ty
    by (simp add: demo_defs)
  have t2: "CreatePrimaryConfigs (configTracker ?c) ?cd () (includeLabelPrefix ?c) (?s2 ty)
              = (None, ?s2 ty)" for ty
    by (simp add: demo_defs)
  have t3: "makeAnnotations fakePkg (Annotations (tmplMeta (Template (csSpec (?cs ty))))) (?s2 ty)
              = (Inr ?anns, ?s2 ty)" for ty
    by (simp add: demo_defs)
  have "fst (Create (kruiseClient ?c) ?ns (?new ty) (?s2 ty)) = Inr (?new ty)" for ty
    by (simp add: newPrimaryCloneSet_def demo_defs)
  then have cr: "Create (kruiseClient ?c) ?ns (?new ty) (?s2 ty)
                   = (Inr (?new ty), snd (Create (kruiseClient ?c) ?ns (?new ty) (?s2 ty)))" for ty
    by (simp add: prod_eq_iff)
  note t = createPrimaryCloneSet_strategy_allow_list [OF g1, where P = fakePkg and prefixes = "[]", unfolded Let_def]
  have "createPrimaryCloneSet fakePkg ?c ?cd [] (?w ''InPlaceIfPossible'')
          = (Some (Errorf ''cloneset %s.%s must have RollingUpdate strategy but have %s''
                     [ArgS (TargetRef_Name ?cd), ArgS ?ns,
                      ArgS (strategyType (UpdateStrategy (csSpec (?cs ''InPlaceIfPossible''))))]),
             ?s1 ''InPlaceIfPossible'')"
    by (rule t [THEN conjunct1, rule_format])
       (simp add: demoCloneSet_def RecreateCloneSetUpdateStrategyType_def)
  then have refused: "createPrimaryCloneSet fakePkg ?c ?cd [] (?w ''InPlaceIfPossible'')
          = (Some (Errorf ''cloneset %s.%s must have RollingUpdate strategy but have %s''
                     [ArgS ''demo'', ArgS ''ns'', ArgS ''InPlaceIfPossible'']),
             ?s1 ''InPlaceIfPossible'')"
    by (simp add: demoCanary_def demoCloneSet_def)
  have created: "createPrimaryCloneSet fakePkg ?c ?cd [] (?w ty)
          = (None,
             logger_Infof ?c (Name (cdMeta ?cd) @ ''.'' @ ?ns)
               (''CloneSet '' @ (TargetRef_Name ?cd @ ''-primary'') @ ''.'' @ ?ns @ '' created'')
               (snd (Create (kruiseClient ?c) ?ns (?new ty) (?s2 ty))))"
    if "strategyType (UpdateStrategy (csSpec (?cs ty))) = ''''
        \<or> strategyType (UpdateStrategy (csSpec (?cs ty))) = RecreateCloneSetUpdateStrategyType"
    for ty
    by (rule t [THEN conjunct2, THEN mp, OF that, THEN conjunct2, rule_format])
       (rule conjI [OF sel conjI [OF g2 conjI [OF nf conjI [OF t1 conjI [OF t2 conjI [OF t3 cr]]]]]])
  have made: "fst (createPrimaryCloneSet fakePkg ?c ?cd [] (?w ty)) = None
              \<and> objects (snd (createPrimaryCloneSet fakePkg ?c ?cd [] (?w ty)))
                    (''ns'', ''demo-primary'') \<noteq> None"
    if "ty = '''' \<or> ty = ''ReCreate''" for ty
  proof -
    from that have "strategyType (UpdateStrategy (csSpec (?cs ty))) = ''''
        \<or> strategyType (UpdateStrategy (csSpec (?cs ty))) = RecreateCloneSetUpdateStrategyType"
      by (simp add: demoCloneSet_def RecreateCloneSetUpdateStrategyType_def)
    from created [OF this] show ?thesis
      by (simp add: newPrimaryCloneSet_def demo_defs)
  qed
  have recreate: "fst (createPrimaryCloneSet fakePkg ?c ?cd [] (?w ''ReCreate'')) = None
              \<and> objects (snd (createPrimaryCloneSet fakePkg ?c ?cd [] (?w ''ReCreate'')))
                    (''ns'', ''demo-primary'') \<noteq> None"
    by (rule made) simp
  have unset: "fst (createPrimaryCloneSet fakePkg ?c ?cd [] (?w '''')) = None
              \<and> objects (snd (createPrimaryCloneSet fakePkg ?c ?cd [] (?w '''')))
                    (''ns'', ''demo-primary'') \<noteq> None"
    by (rule made) simp
  show ?thesis
    by (rule conjI [OF refused conjI [OF conjunct1 [OF recreate] conjI [OF conjunct2 [OF recreate] unset]]])
qed

theorem createPrimaryCloneSet_recreate_counterexample:
  "objects (demoWorld [demoCloneSet ''demo'' [(''app'', ''demo'')] None ''ReCreate'' 0 None] noFaults)
     (''ns'', ''demo-primary'') = None
   \<and> fst (createPrimaryCloneSet fakePkg (demoController [''app'']) (demoCanary ''Initializing'' False '''')
            [] (demoWorld [demoCloneSet ''demo'' [(''app'', ''demo'')] None ''ReCreate'' 0 None] noFaults))
       = None
   \<and> objects (snd (createPrimaryCloneSet fakePkg (demoController [''app''])
                     (demoCanary ''Initializing'' False '''') []
                     (demoWorld [demoCloneSet ''demo'' [(''app'', ''demo'')] None ''ReCreate'' 0 None] noFaults)))
        (''ns'', ''demo-primary'') \<noteq> None
   \<and> createPrimaryCloneSet fakePkg (demoController [''app'']) (demoCanary ''Initializing'' False '''')
            [] (demoWorld [demoCloneSet ''demo'' [(''app'', ''demo'')] None ''InPlaceIfPossible'' 0 None] noFaults)
       = (Some (Errorf ''cloneset %s.%s must have RollingUpdate strategy but have %s''
                  [ArgS ''demo'', ArgS ''ns'', ArgS ''InPlaceIfPossible'']),
          (demoWorld [demoCloneSet ''demo'' [(''app'', ''demo'')] None ''InPlaceIfPossible'' 0 None] noFaults)
            \<lparr>requests := [GetReq ''ns'' ''demo'']\<rparr>)"
  by (simp add: createPrimaryCloneSet_def getSelectorLabel_def map_index_def IsNotFound_def Let_def
      RecreateCloneSetUpdateStrategyType_def newPrimaryCloneSet_def demo_defs)

section \<open>Error propagation\<close>

lemma createPrimaryCloneSet_other_get_error:
  assumes "Get (kruiseClient c) (Namespace (cdMeta cd)) (TargetRef_Name cd) s = (Inr canary, s1)"
    and "strategyType (UpdateStrategy (csSpec canary)) = ''''"
    and "getSelectorLabel c canary = Inr (label, labelValue)"
    and "Get (kruiseClient c) (Namespace (cdMeta cd)) (TargetRef_Name cd @ ''-primary'') s1
           = (Inl err, s2)"
    and "IsNotFound err = False"
  shows "createPrimaryCloneSet P c cd prefixes s = (None, s2)"
  using assms
  by (simp add: createPrimaryCloneSet_def Let_def)

text \<open>
  Claim C5. No failure of a get, create or update call is to be discarded while success is
  returned. In \<open>createPrimaryCloneSet\<close> the read of the primary is followed by the test
  \<open>errors.IsNotFound(err)\<close> only: a read that fails for another reason (here a server
  timeout on the second request) is dropped, the function returns nil after two reads,
  and so does \<open>Initialize\<close> outside the initial phase.
\<close>

theorem createPrimaryCloneSet_drops_get_error:
  "createPrimaryCloneSet fakePkg (demoController [''app'']) (demoCanary ''Progressing'' False '''') []
     (demoWorld [demoCloneSet ''demo'' [(''app'', ''demo'')] None '''' 0 None]
        (failAt 1 (StatusError StatusReasonServerTimeout ''the server timed out'')))
   = (None,
      (demoWorld [demoCloneSet ''demo'' [(''app'', ''demo'')] None '''' 0 None]
        (failAt 1 (StatusError StatusReasonServerTimeout ''the server timed out'')))
        \<lparr>requests := [GetReq ''ns'' ''demo'', GetReq ''ns'' ''demo-primary'']\<rparr>)
   \<and> fst (Initialize fakePkg (demoController [''app'']) (demoCanary ''Progressing'' False '''')
     (demoWorld [demoCloneSet ''demo'' [(''app'', ''demo'')] None '''' 0 None]
        (failAt 1 (StatusError StatusReasonServerTimeout ''the server timed out''))))
     = None"
  by (simp add: Initialize_def createPrimaryCloneSet_def getSelectorLabel_def map_index_def
      IsNotFound_def Let_def RecreateCloneSetUpdateStrategyType_def CanaryPhaseInitializing_def
      demo_defs)

section \<open>The phase gate of Initialize\<close>

text \<open>
  Claim C6, amended. After a successful creation step ending in state \<open>s1\<close>:
  outside the initial phase \<open>Initialize\<close> returns nil in \<open>s1\<close>, so it neither verifies
  the primary nor scales the target; in the initial phase (empty or Initializing) it
  verifies primary readiness only when analysis is not skipped, and it scales the target
  to zero in both cases: directly from \<open>s1\<close> when analysis is skipped, after a
  successful readiness check otherwise (a failed check is returned and nothing is scaled).
\<close>

theorem Initialize_phase_gate:
  assumes "createPrimaryCloneSet P c cd (includeLabelPrefix c) s = (None, s1)"
  shows
    "(let initial = (Status_Phase cd = '''' \<or> Status_Phase cd = CanaryPhaseInitializing);
          scale = (\<lambda>s2.
            case ScaleToZero c cd
                   (logger_Infof c (Name (cdMeta cd) @ ''.'' @ Namespace (cdMeta cd))
                      (''Scaling down CloneSet '' @ TargetRef_Name cd @ ''.'' @ Namespace (cdMeta cd))
                      s2) of
              (Some err, s4) \<Rightarrow> (Some (Errorf_w ''ScaleToZero failed: %w'' [] err), s4)
            | (None, s4) \<Rightarrow> (None, s4))
      in (\<not> initial \<longrightarrow> Initialize P c cd s = (None, s1))
         \<and> (initial \<and> SkipAnalysis cd \<longrightarrow> Initialize P c cd s = scale s1)
         \<and> (initial \<and> \<not> SkipAnalysis cd \<longrightarrow>
               Initialize P c cd s =
                 (case IsPrimaryReady P c cd s1 of
                    (Some err, s2) \<Rightarrow> (Some (Errorf_w ''%w'' [] err), s2)
                  | (None, s2) \<Rightarrow> scale s2)))"
  using assms
  by (simp add: Initialize_def Let_def split: prod.splits option.splits)

theorem Initialize_phase_gate_witness:
  "Initialize fakePkg (demoController [''app'']) (demoCanary ''Progressing'' False '''')
     (demoWorld [demoCloneSet ''demo'' [(''app'', ''demo'')] None '''' 0 None,
                 demoCloneSet ''demo-primary'' [(''app'', ''demo-primary'')] None '''' 0 None] noFaults)
   = (None,
      (demoWorld [demoCloneSet ''demo'' [(''app'', ''demo'')] None '''' 0 None,
                  demoCloneSet ''demo-primary'' [(''app'', ''demo-primary'')] None '''' 0 None] noFaults)
        \<lparr>requests := [GetReq ''ns'' ''demo'', GetReq ''ns'' ''demo-primary'']\<rparr>)
   \<and> fst (Initialize fakePkg (demoController [''app'']) (demoCanary ''Initializing'' True '''')
        (demoWorld [demoCloneSet ''demo'' [(''app'', ''demo'')] None '''' 0 None,
                    demoCloneSet ''demo-primary'' [(''app'', ''demo-primary'')] None '''' 0 None] noFaults))
      = None
   \<and> length (requests (snd (Initialize fakePkg (demoController [''app''])
        (demoCanary ''Initializing'' True '''')
        (demoWorld [demoCloneSet ''demo'' [(''app'', ''demo'')] None '''' 0 None,
                    demoCloneSet ''demo-primary'' [(''app'', ''demo-primary'')] None '''' 0 None] noFaults))))
      = 4
   \<and> fst (Initialize fakePkg (demoController [''app'']) (demoCanary ''Initializing'' False '''')
        (demoWorld [demoCloneSet ''demo'' [(''app'', ''demo'')] None '''' 0 None,
                    demoCloneSet ''demo-primary'' [(''app'', ''demo-primary'')] None '''' 0 None] noFaults))
      = None
   \<and> length (requests (snd (Initialize fakePkg (demoController [''app''])
        (demoCanary ''Initializing'' False '''')
        (demoWorld [demoCloneSet ''demo'' [(''app'', ''demo'')] None '''' 0 None,
                    demoCloneSet ''demo-primary'' [(''app'', ''demo-primary'')] None '''' 0 None] noFaults))))
      = 5"
proof -
  let ?c = "demoController [''app'']"
  let ?w = "demoWorld [demoCloneSet ''demo'' [(''app'', ''demo'')] None '''' 0 None,
                 demoCloneSet ''demo-primary'' [(''app'', ''demo-primary'')] None '''' 0 None] noFaults"
  let ?s1 = "?w\<lparr>requests := [GetReq ''ns'' ''demo'', GetReq ''ns'' ''demo-primary'']\<rparr>"
  have created: "createPrimaryCloneSet fakePkg ?c (demoCanary phase skip '''') (includeLabelPrefix ?c) ?w
                   = (None, ?s1)" for phase skip
    by (simp add: createPrimaryCloneSet_def getSelectorLabel_def map_index_def Let_def demo_defs)
  note other = Initialize_phase_gate [OF created [of "''Progressing''" False], unfolded Let_def]
  note skipped = Initialize_phase_gate [OF created [of "''Initializing''" True], unfolded Let_def]
  note checked = Initialize_phase_gate [OF created [of "''Initializing''" False], unfolded Let_def]
  have a: "Initialize fakePkg ?c (demoCanary ''Progressing'' False '''') ?w = (None, ?s1)"
    by (rule other [THEN conjunct1, rule_format])
       (simp add: demoCanary_def CanaryPhaseInitializing_def)
  have "Initialize fakePkg ?c (demoCanary ''Initializing'' True '''') ?w
          = (case ScaleToZero ?c (demoCanary ''Initializing'' True '''')
                   (logger_Infof ?c
                      (Name (cdMeta (demoCanary ''Initializing'' True '''')) @ ''.''
                         @ Namespace (cdMeta (demoCanary ''Initializing'' True '''')))
                      (''Scaling down CloneSet '' @ TargetRef_Name (demoCanary ''Initializing'' True '''')
                         @ ''.'' @ Namespace (cdMeta (demoCanary ''Initializing'' True '''')))
                      ?s1) of
              (Some err, s4) \<Rightarrow> (Some (Errorf_w ''ScaleToZero failed: %w'' [] err), s4)
            | (None, s4) \<Rightarrow> (None, s4))"
    by (rule skipped [THEN conjunct2, THEN conjunct1, rule_format])
       (simp add: demoCanary_def CanaryPhaseInitializing_def)
  then have b: "fst (Initialize fakePkg ?c (demoCanary ''Initializing'' True '''') ?w) = None
      \<and> length (requests (snd (Initialize fakePkg ?c (demoCanary ''Initializing'' True '''') ?w))) = 4"
    by (simp add: ScaleToZero_def Let_def cloneSetScaleDownNodeSelector_def nodeSelectorOf_def
        with_NodeSelector_def demo_defs)
  have "Initialize fakePkg ?c (demoCanary ''Initializing'' False '''') ?w
          = (case IsPrimaryReady fakePkg ?c (demoCanary ''Initializing'' False '''') ?s1 of
               (Some err, s2) \<Rightarrow> (Some (Errorf_w ''%w'' [] err), s2)
             | (None, s2) \<Rightarrow>
                 (case ScaleToZero ?c (demoCanary ''Initializing'' False '''')
                   (logger_Infof ?c
                      (Name (cdMeta (demoCanary ''Initializing'' False '''')) @ ''.''
                         @ Namespace (cdMeta (demoCanary ''Initializing'' False '''')))
                      (''Scaling down CloneSet '' @ TargetRef_Name (demoCanary ''Initializing'' False '''')
                         @ ''.'' @ Namespace (cdMeta (demoCanary ''Initializing'' False '''')))
                      s2) of
              (Some err, s4) \<Rightarrow> (Some (Errorf_w ''ScaleToZero failed: %w'' [] err), s4)
            | (None, s4) \<Rightarrow> (None, s4)))"
    by (rule checked [THEN conjunct2, THEN conjunct2, rule_format])
       (simp add: demoCanary_def CanaryPhaseInitializing_def)
  then have c: "fst (Initialize fakePkg ?c (demoCanary ''Initializing'' False '''') ?w) = None
      \<and> length (requests (snd (Initialize fakePkg ?c (demoCanary ''Initializing'' False '''') ?w))) = 5"
    by (simp add: IsPrimaryReady_def isCloneSetReady_def getCloneSetCondition_def ptr_eq_def
        ScaleToZero_def Let_def cloneSetScaleDownNodeSelector_def nodeSelectorOf_def
        with_NodeSelector_def demo_defs)
  show ?thesis
    by (rule conjI [OF a conjI [OF conjunct1 [OF b] conjI [OF conjunct2 [OF b] c]]])
qed

theorem Initialize_skip_analysis_counterexample:
  "SkipAnalysis (demoCanary '''' True '''')
   \<and> storedNodeSelector
        (demoWorld [demoCloneSet ''demo'' [(''app'', ''demo'')] None '''' 0 None,
                    demoCloneSet ''demo-primary'' [(''app'', ''demo-primary'')] None '''' 0 None] noFaults)
        ''ns'' ''demo'' ''flagger.app/scale-to-zero'' = None
   \<and> fst (Initialize fakePkg (demoController [''app'']) (demoCanary '''' True '''')
        (demoWorld [demoCloneSet ''demo'' [(''app'', ''demo'')] None '''' 0 None,
                    demoCloneSet ''demo-primary'' [(''app'', ''demo-primary'')] None '''' 0 None] noFaults))
      = None
   \<and> storedNodeSelector
        (snd (Initialize fakePkg (demoController [''app'']) (demoCanary '''' True '''')
           (demoWorld [demoCloneSet ''demo'' [(''app'', ''demo'')] None '''' 0 None,
                    demoCloneSet ''demo-primary'' [(''app'', ''demo-primary'')] None '''' 0 None] noFaults)))
        ''ns'' ''demo'' ''flagger.app/scale-to-zero'' = Some ''true''"
  by (simp add: Initialize_def createPrimaryCloneSet_def getSelectorLabel_def map_index_def
      IsNotFound_def Let_def RecreateCloneSetUpdateStrategyType_def CanaryPhaseInitializing_def
      ScaleToZero_def storedNodeSelector_def cloneSetScaleDownNodeSelector_def nodeSelectorOf_def
      with_NodeSelector_def demo_defs)

section \<open>Scaling to zero and back\<close>

text \<open>
  Claim C7, amended. For a target stored under its own name, with a client that does not
  fail: \<open>ScaleToZero\<close> twice leaves the same node selector as \<open>ScaleToZero\<close> once;
  \<open>ScaleFromZero\<close> after \<open>ScaleToZero\<close> leaves the node selector the target had before
  with the marker key removed, nil read as empty; this is the map the target had before
  exactly when that map did not already hold the marker key; and every entry under another
  key is the same after each of the three calls.
\<close>

theorem scale_roundtrip_node_selector:
  assumes "kruiseClient c = fakeClient"
    and "objects w (Namespace (cdMeta cd), TargetRef_Name cd) = Some cs"
    and "Name (csMeta cs) = TargetRef_Name cd"
    and "Namespace (csMeta cs) = Namespace (cdMeta cd)"
    and "\<forall>n. faults w n = None"
  shows
    "(let ns = Namespace (cdMeta cd);
          name = TargetRef_Name cd;
          marker = ''flagger.app/scale-to-zero'';
          before = map_entries (nodeSelectorOf cs);
          once = ScaleToZero c cd w;
          twice = ScaleToZero c cd (snd once);
          back = ScaleFromZero c cd (snd once)
      in fst once = None \<and> fst twice = None \<and> fst back = None
         \<and> storedNodeSelector (snd once) ns name = before(marker \<mapsto> ''true'')
         \<and> map_option nodeSelectorOf (objects (snd twice) (ns, name))
             = map_option nodeSelectorOf (objects (snd once) (ns, name))
         \<and> storedNodeSelector (snd back) ns name = before(marker := None)
         \<and> (before marker = None \<longrightarrow> storedNodeSelector (snd back) ns name = before)
         \<and> (\<forall>k. k \<noteq> marker \<longrightarrow>
                storedNodeSelector (snd once) ns name k = before k
              \<and> storedNodeSelector (snd twice) ns name k = before k
              \<and> storedNodeSelector (snd back) ns name k = before k))"
proof -
  let ?ns = "Namespace (cdMeta cd)" and ?name = "TargetRef_Name cd"
  let ?marked = "with_NodeSelector cs
          (Some ((map_entries (nodeSelectorOf cs))(''flagger.app/scale-to-zero'' \<mapsto> ''true'')))"
  let ?w1 = "snd (ScaleToZero c cd w)"
  have once: "ScaleToZero c cd w =
      (None, w\<lparr>requests := requests w @ [GetReq ?ns ?name, UpdateReq ?ns ?marked],
                objects := (objects w)((?ns, ?name) \<mapsto> ?marked)\<rparr>)"
    by (rule ScaleToZero_fake [OF assms])
  have w1_obj: "objects ?w1 (?ns, ?name) = Some ?marked"
    by (simp add: once)
  have w1_name: "Name (csMeta ?marked) = ?name" "Namespace (csMeta ?marked) = ?ns"
    using assms(3,4) by simp_all
  have w1_faults: "\<forall>n. faults ?w1 n = None"
    using assms(5) by (simp add: once)
  note twice = ScaleToZero_fake [OF assms(1) w1_obj w1_name w1_faults]
  note undo = ScaleFromZero_fake [OF assms(1) w1_obj w1_name w1_faults]
  have restored: "(map_entries (nodeSelectorOf cs))(''flagger.app/scale-to-zero'' := None)
        = map_entries (nodeSelectorOf cs)" if "map_entries (nodeSelectorOf cs) ''flagger.app/scale-to-zero'' = None"
    using that by (simp add: fun_upd_idem)
  show ?thesis
    unfolding Let_def twice undo
    by (simp add: once storedNodeSelector_def restored)
qed

theorem scale_roundtrip_marker_counterexample:
  "storedNodeSelector
     (demoWorld [demoCloneSet ''demo'' [(''app'', ''demo'')]
                   (Some [''flagger.app/scale-to-zero'' \<mapsto> ''true'']) '''' 0 None] (\<lambda>n. None))
     ''ns'' ''demo'' ''flagger.app/scale-to-zero'' = Some ''true''
   \<and> storedNodeSelector
     (snd (ScaleFromZero (demoController [''app'']) (demoCanary '''' False '''')
        (snd (ScaleToZero (demoController [''app'']) (demoCanary '''' False '''')
           (demoWorld [demoCloneSet ''demo'' [(''app'', ''demo'')]
                   (Some [''flagger.app/scale-to-zero'' \<mapsto> ''true'']) '''' 0 None] (\<lambda>n. None))))))
     ''ns'' ''demo'' ''flagger.app/scale-to-zero'' = None"
  by (simp add: storedNodeSelector_def demoWorld_def demoCloneSet_def demoController_def
      demoCanary_def ScaleToZero_def ScaleFromZero_def fakeClient_def fakeGet_def fakeUpdate_def
      Let_def cloneSetScaleDownNodeSelector_def delete_marker_eq map_entries_def map_delete_def
      nodeSelectorOf_def with_NodeSelector_def)

theorem scale_roundtrip_node_selector_witness:
  "kruiseClient (demoController [''app'']) = fakeClient
   \<and> objects (demoWorld [demoCloneSet ''demo'' [(''app'', ''demo'')] (Some [''disk'' \<mapsto> ''ssd'']) '''' 0 None] noFaults)
         (Namespace (cdMeta (demoCanary ''Initializing'' False '''')),
          TargetRef_Name (demoCanary ''Initializing'' False ''''))
       = Some (demoCloneSet ''demo'' [(''app'', ''demo'')] (Some [''disk'' \<mapsto> ''ssd'']) '''' 0 None)
   \<and> (\<forall>n. faults (demoWorld [demoCloneSet ''demo'' [(''app'', ''demo'')] (Some [''disk'' \<mapsto> ''ssd'']) '''' 0 None] noFaults) n = None)
   \<and> storedNodeSelector
        (snd (ScaleFromZero (demoController [''app'']) (demoCanary ''Initializing'' False '''')
           (snd (ScaleToZero (demoController [''app'']) (demoCanary ''Initializing'' False '''')
              (demoWorld [demoCloneSet ''demo'' [(''app'', ''demo'')] (Some [''disk'' \<mapsto> ''ssd'']) '''' 0 None] noFaults)))))
        (Namespace (cdMeta (demoCanary ''Initializing'' False '''')))
        (TargetRef_Name (demoCanary ''Initializing'' False ''''))
      = map_entries (nodeSelectorOf (demoCloneSet ''demo'' [(''app'', ''demo'')] (Some [''disk'' \<mapsto> ''ssd'']) '''' 0 None))"
proof -
  let ?c = "demoController [''app'']"
  let ?cd = "demoCanary ''Initializing'' False ''''"
  let ?cs = "demoCloneSet ''demo'' [(''app'', ''demo'')] (Some [''disk'' \<mapsto> ''ssd'']) '''' 0 None"
  let ?w = "demoWorld [?cs] noFaults"
  have h1: "kruiseClient ?c = fakeClient"
    by (simp add: demoController_def)
  have h2: "objects ?w (Namespace (cdMeta ?cd), TargetRef_Name ?cd) = Some ?cs"
    by (simp add: demoWorld_def demoCanary_def demoCloneSet_def)
  have h3: "Name (csMeta ?cs) = TargetRef_Name ?cd"
    by (simp add: demoCanary_def demoCloneSet_def)
  have h4: "Namespace (csMeta ?cs) = Namespace (cdMeta ?cd)"
    by (simp add: demoCanary_def demoCloneSet_def)
  have h5: "\<forall>n. faults ?w n = None"
    by (simp add: demoWorld_def noFaults_def)
  have unmarked: "map_entries (nodeSelectorOf ?cs) ''flagger.app/scale-to-zero'' = None"
    by (simp add: demoCloneSet_def nodeSelectorOf_def)
  note t = scale_roundtrip_node_selector [OF h1 h2 h3 h4 h5, unfolded Let_def]
  have restored: "storedNodeSelector (snd (ScaleFromZero ?c ?cd (snd (ScaleToZero ?c ?cd ?w))))
        (Namespace (cdMeta ?cd)) (TargetRef_Name ?cd) = map_entries (nodeSelectorOf ?cs)"
    by (rule t [THEN conjunct2, THEN conjunct2, THEN conjunct2, THEN conjunct2, THEN conjunct2,
                THEN conjunct2, THEN conjunct1, rule_format])
       (rule unmarked)
  show ?thesis
    by (rule conjI [OF h1 conjI [OF h2 conjI [OF h5 restored]]])
qed

section \<open>Drift detection\<close>

lemma with_NodeSelector_twice [simp]:
  "with_NodeSelector (with_NodeSelector cs a) b = with_NodeSelector cs b"
  by (simp add: with_NodeSelector_def)

lemma HasTargetChanged_fake:
  assumes "kruiseClient c = fakeClient"
    and "objects w (Namespace (cdMeta cd), TargetRef_Name cd) = Some cs"
    and "\<forall>n. faults w n = None"
  shows "HasTargetChanged P c cd w =
    (hasSpecChanged P cd
       (Template (csSpec (with_NodeSelector cs
          (Some ((map_entries (nodeSelectorOf cs))(''flagger.app/scale-to-zero'' := None)))))),
     w\<lparr>requests := requests w @ [GetReq (Namespace (cdMeta cd)) (TargetRef_Name cd)]\<rparr>)"
proof (cases "nodeSelectorOf cs")
  case None
  with assms show ?thesis
    by (simp add: HasTargetChanged_def fakeClient_def fakeGet_found Let_def delete_marker_eq
        map_delete_def)
next
  case (Some m)
  with assms show ?thesis
    by (simp add: HasTargetChanged_def fakeClient_def fakeGet_found Let_def delete_marker_eq
        map_delete_def)
qed

text \<open>
  Claim C8. For a target stored under its own name, with a client that does not fail, and
  whatever the hash comparison \<open>hasSpecChanged\<close> is: \<open>HasTargetChanged\<close> answers the
  same before \<open>ScaleToZero\<close>, after it, and after the following \<open>ScaleFromZero\<close>; so
  if the target's template compared equal to its recorded hash (answer false, no error),
  it still does after the add/remove cycle; and a target with a nil node selector gets the
  same answer as the same target with an empty one.
\<close>

theorem HasTargetChanged_ignores_marker:
  assumes "kruiseClient c = fakeClient"
    and "objects w (Namespace (cdMeta cd), TargetRef_Name cd) = Some cs"
    and "Name (csMeta cs) = TargetRef_Name cd"
    and "Namespace (csMeta cs) = Namespace (cdMeta cd)"
    and "\<forall>n. faults w n = None"
  shows
    "(let key = (Namespace (cdMeta cd), TargetRef_Name cd);
          marked = snd (ScaleToZero c cd w);
          cycled = snd (ScaleFromZero c cd marked)
      in fst (HasTargetChanged P c cd marked) = fst (HasTargetChanged P c cd w)
         \<and> fst (HasTargetChanged P c cd cycled) = fst (HasTargetChanged P c cd w)
         \<and> (fst (HasTargetChanged P c cd w) = (False, None)
              \<longrightarrow> fst (HasTargetChanged P c cd cycled) = (False, None))
         \<and> fst (HasTargetChanged P c cd (w\<lparr>objects := (objects w)(key \<mapsto> with_NodeSelector cs None)\<rparr>))
             = fst (HasTargetChanged P c cd
                      (w\<lparr>objects := (objects w)(key \<mapsto> with_NodeSelector cs (Some Map.empty))\<rparr>)))"
proof -
  let ?ns = "Namespace (cdMeta cd)" and ?name = "TargetRef_Name cd"
  let ?m = "map_entries (nodeSelectorOf cs)"
  let ?marked = "with_NodeSelector cs (Some (?m(''flagger.app/scale-to-zero'' \<mapsto> ''true'')))"
  let ?unmarked = "with_NodeSelector ?marked
                     (map_delete (nodeSelectorOf ?marked) ''flagger.app/scale-to-zero'')"
  let ?w1 = "snd (ScaleToZero c cd w)"
  let ?w3 = "snd (ScaleFromZero c cd ?w1)"
  have once: "ScaleToZero c cd w =
      (None, w\<lparr>requests := requests w @ [GetReq ?ns ?name, UpdateReq ?ns ?marked],
                objects := (objects w)((?ns, ?name) \<mapsto> ?marked)\<rparr>)"
    by (rule ScaleToZero_fake [OF assms])
  have w1_obj: "objects ?w1 (?ns, ?name) = Some ?marked"
    by (simp add: once)
  have w1_name: "Name (csMeta ?marked) = ?name" "Namespace (csMeta ?marked) = ?ns"
    using assms(3,4) by simp_all
  have w1_faults: "\<forall>n. faults ?w1 n = None"
    using assms(5) by (simp add: once)
  have undo: "ScaleFromZero c cd ?w1 =
      (None, ?w1\<lparr>requests := requests ?w1 @ [GetReq ?ns ?name, UpdateReq ?ns ?unmarked],
                  objects := (objects ?w1)((?ns, ?name) \<mapsto> ?unmarked)\<rparr>)"
    by (rule ScaleFromZero_fake [OF assms(1) w1_obj w1_name w1_faults])
  have w3_obj: "objects ?w3 (?ns, ?name) = Some ?unmarked"
    by (simp add: undo)
  have w3_faults: "\<forall>n. faults ?w3 n = None"
    using w1_faults by (simp add: undo)
  have h0: "fst (HasTargetChanged P c cd w) =
      hasSpecChanged P cd (Template (csSpec (with_NodeSelector cs
          (Some (?m(''flagger.app/scale-to-zero'' := None))))))"
    by (simp add: HasTargetChanged_fake [OF assms(1,2,5)])
  have h1: "fst (HasTargetChanged P c cd ?w1) =
      hasSpecChanged P cd (Template (csSpec (with_NodeSelector cs
          (Some (?m(''flagger.app/scale-to-zero'' := None))))))"
    by (simp add: HasTargetChanged_fake [OF assms(1) w1_obj w1_faults])
  have h3: "fst (HasTargetChanged P c cd ?w3) =
      hasSpecChanged P cd (Template (csSpec (with_NodeSelector cs
          (Some (?m(''flagger.app/scale-to-zero'' := None))))))"
    by (simp add: HasTargetChanged_fake [OF assms(1) w3_obj w3_faults])
  let ?wn = "w\<lparr>objects := (objects w)((?ns, ?name) \<mapsto> with_NodeSelector cs None)\<rparr>"
  let ?we = "w\<lparr>objects := (objects w)((?ns, ?name) \<mapsto> with_NodeSelector cs (Some Map.empty))\<rparr>"
  have wn_obj: "objects ?wn (?ns, ?name) = Some (with_NodeSelector cs None)"
    and we_obj: "objects ?we (?ns, ?name) = Some (with_NodeSelector cs (Some Map.empty))"
    by simp_all
  have wn_faults: "\<forall>n. faults ?wn n = None" and we_faults: "\<forall>n. faults ?we n = None"
    using assms(5) by simp_all
  have hn: "fst (HasTargetChanged P c cd ?wn) = fst (HasTargetChanged P c cd ?we)"
    by (simp add: HasTargetChanged_fake [OF assms(1) wn_obj wn_faults]
        HasTargetChanged_fake [OF assms(1) we_obj we_faults])
  show ?thesis
    unfolding Let_def
    by (simp add: h0 h1 h3 hn)
qed

theorem HasTargetChanged_ignores_marker_witness:
  "fst (HasTargetChanged fakePkg (demoController [''app'']) (demoCanary ''Progressing'' False ''mapapp:1.0'')
          (demoWorld [demoCloneSet ''demo'' [(''app'', ''demo'')] None '''' 0 None] noFaults))
     = (False, None)
   \<and> fst (HasTargetChanged fakePkg (demoController [''app'']) (demoCanary ''Progressing'' False ''mapapp:1.0'')
          (snd (ScaleFromZero (demoController [''app'']) (demoCanary ''Progressing'' False ''mapapp:1.0'')
             (snd (ScaleToZero (demoController [''app'']) (demoCanary ''Progressing'' False ''mapapp:1.0'')
                (demoWorld [demoCloneSet ''demo'' [(''app'', ''demo'')] None '''' 0 None] noFaults))))))
     = (False, None)"
proof -
  let ?c = "demoController [''app'']"
  let ?cd = "demoCanary ''Progressing'' False ''mapapp:1.0''"
  let ?cs = "demoCloneSet ''demo'' [(''app'', ''demo'')] None '''' 0 None"
  let ?w = "demoWorld [?cs] noFaults"
  have h1: "kruiseClient ?c = fakeClient"
    by (simp add: demoController_def)
  have h2: "objects ?w (Namespace (cdMeta ?cd), TargetRef_Name ?cd) = Some ?cs"
    by (simp add: demoWorld_def demoCanary_def demoCloneSet_def)
  have h3: "Name (csMeta ?cs) = TargetRef_Name ?cd"
    by (simp add: demoCanary_def demoCloneSet_def)
  have h4: "Namespace (csMeta ?cs) = Namespace (cdMeta ?cd)"
    by (simp add: demoCanary_def demoCloneSet_def)
  have h5: "\<forall>n. faults ?w n = None"
    by (simp add: demoWorld_def noFaults_def)
  have unchanged: "fst (HasTargetChanged fakePkg ?c ?cd ?w) = (False, None)"
    by (simp add: HasTargetChanged_def Let_def delete_marker_eq map_delete_def nodeSelectorOf_def
        with_NodeSelector_def templateHash_def demo_defs)
  note t = HasTargetChanged_ignores_marker [OF h1 h2 h3 h4 h5, where P = fakePkg, unfolded Let_def]
  have still: "fst (HasTargetChanged fakePkg ?c ?cd
                      (snd (ScaleFromZero ?c ?cd (snd (ScaleToZero ?c ?cd ?w))))) = (False, None)"
    by (rule t [THEN conjunct2, THEN conjunct2, THEN conjunct1, rule_format]) (rule unchanged)
  show ?thesis
    by (rule conjI [OF unchanged still])
qed

section \<open>Creation when the primary exists\<close>

text \<open>
  Claim C9. When the primary CloneSet is in the cluster and the client does not fail, the
  creation step of \<open>Initialize\<close> changes nothing but the list of requests, to which it
  adds one or two reads: no create and no update is issued, and the store (the primary
  included) is as before. When the target is there with an accepted strategy and a
  resolvable selector label, it returns nil after exactly the two reads.
\<close>

theorem createPrimaryCloneSet_existing_noop:
  assumes "kruiseClient c = fakeClient"
    and "objects w (Namespace (cdMeta cd), TargetRef_Name cd @ ''-primary'') = Some primary"
    and "\<forall>n. faults w n = None"
  shows
    "(let ns = Namespace (cdMeta cd);
          get_target = GetReq ns (TargetRef_Name cd);
          get_primary = GetReq ns (TargetRef_Name cd @ ''-primary'');
          r = createPrimaryCloneSet P c cd prefixes w
      in (snd r = w\<lparr>requests := requests w @ [get_target]\<rparr>
            \<or> snd r = w\<lparr>requests := requests w @ [get_target, get_primary]\<rparr>)
         \<and> objects (snd r) = objects w
         \<and> (\<forall>canary label labelValue.
               objects w (ns, TargetRef_Name cd) = Some canary
               \<and> (strategyType (UpdateStrategy (csSpec canary)) = ''''
                    \<or> strategyType (UpdateStrategy (csSpec canary)) = RecreateCloneSetUpdateStrategyType)
               \<and> getSelectorLabel c canary = Inr (label, labelValue)
             \<longrightarrow> r = (None, w\<lparr>requests := requests w @ [get_target, get_primary]\<rparr>)))"
proof -
  let ?ns = "Namespace (cdMeta cd)"
  let ?w1 = "w\<lparr>requests := requests w @ [GetReq ?ns (TargetRef_Name cd)]\<rparr>"
  have nf: "faults w n = None" for n
    using assms(3) by simp
  have g2: "fakeGet ?ns (TargetRef_Name cd @ ''-primary'') ?w1
              = (Inr primary, w\<lparr>requests := requests w @ [GetReq ?ns (TargetRef_Name cd),
                                    GetReq ?ns (TargetRef_Name cd @ ''-primary'')]\<rparr>)"
    using assms(2) by (simp add: fakeGet_def nf)
  show ?thesis
  proof (cases "objects w (?ns, TargetRef_Name cd)")
    case None
    then show ?thesis
      by (simp add: createPrimaryCloneSet_def assms(1) fakeClient_def fakeGet_def nf Let_def)
  next
    case (Some canary)
    then have g1: "fakeGet ?ns (TargetRef_Name cd) w = (Inr canary, ?w1)"
      by (simp add: fakeGet_def nf)
    show ?thesis
      by (simp add: createPrimaryCloneSet_def assms(1) fakeClient_def g1 g2 Some Let_def
          split: sum.splits prod.splits)
  qed
qed

theorem createPrimaryCloneSet_existing_noop_witness:
  "kruiseClient (demoController [''app'']) = fakeClient
   \<and> objects (demoWorld [demoCloneSet ''demo'' [(''app'', ''demo'')] None '''' 0 None,
                           demoCloneSet ''demo-primary'' [(''app'', ''demo-primary'')] None '''' 0 None] noFaults)
         (Namespace (cdMeta (demoCanary ''Progressing'' False '''')),
          TargetRef_Name (demoCanary ''Progressing'' False '''') @ ''-primary'')
       = Some (demoCloneSet ''demo-primary'' [(''app'', ''demo-primary'')] None '''' 0 None)
   \<and> (\<forall>n. faults (demoWorld [demoCloneSet ''demo'' [(''app'', ''demo'')] None '''' 0 None,
                           demoCloneSet ''demo-primary'' [(''app'', ''demo-primary'')] None '''' 0 None] noFaults) n
            = None)
   \<and> createPrimaryCloneSet fakePkg (demoController [''app'']) (demoCanary ''Progressing'' False '''') []
        (demoWorld [demoCloneSet ''demo'' [(''app'', ''demo'')] None '''' 0 None,
                    demoCloneSet ''demo-primary'' [(''app'', ''demo-primary'')] None '''' 0 None] noFaults)
      = (None,
         (demoWorld [demoCloneSet ''demo'' [(''app'', ''demo'')] None '''' 0 None,
                     demoCloneSet ''demo-primary'' [(''app'', ''demo-primary'')] None '''' 0 None] noFaults)
           \<lparr>requests :=
              requests (demoWorld [demoCloneSet ''demo'' [(''app'', ''demo'')] None '''' 0 None,
                     demoCloneSet ''demo-primary'' [(''app'', ''demo-primary'')] None '''' 0 None] noFaults)
              @ [GetReq (Namespace (cdMeta (demoCanary ''Progressing'' False '''')))
                   (TargetRef_Name (demoCanary ''Progressing'' False '''')),
                 GetReq (Namespace (cdMeta (demoCanary ''Progressing'' False '''')))
                   (TargetRef_Name (demoCanary ''Progressing'' False '''') @ ''-primary'')]\<rparr>)"
proof -
  let ?c = "demoController [''app'']"
  let ?cd = "demoCanary ''Progressing'' False ''''"
  let ?target = "demoCloneSet ''demo'' [(''app'', ''demo'')] None '''' 0 None"
  let ?primary = "demoCloneSet ''demo-primary'' [(''app'', ''demo-primary'')] None '''' 0 None"
  let ?w = "demoWorld [?target, ?primary] noFaults"
  have h1: "kruiseClient ?c = fakeClient"
    by (simp add: demoController_def)
  have h2: "objects ?w (Namespace (cdMeta ?cd), TargetRef_Name ?cd @ ''-primary'') = Some ?primary"
    by (simp add: demoWorld_def demoCanary_def demoCloneSet_def)
  have h3: "\<forall>n. faults ?w n = None"
    by (simp add: demoWorld_def noFaults_def)
  have pre: "objects ?w (Namespace (cdMeta ?cd), TargetRef_Name ?cd) = Some ?target
       \<and> (strategyType (UpdateStrategy (csSpec ?target)) = ''''
            \<or> strategyType (UpdateStrategy (csSpec ?target)) = RecreateCloneSetUpdateStrategyType)
       \<and> getSelectorLabel ?c ?target = Inr (''app'', ''demo'')"
    by (simp add: demoWorld_def demoCanary_def demoCloneSet_def demoController_def
        getSelectorLabel_def map_index_def)
  note t = createPrimaryCloneSet_existing_noop [OF h1 h2 h3, where P = fakePkg and prefixes = "[]", unfolded Let_def]
  have noop: "createPrimaryCloneSet fakePkg ?c ?cd [] ?w
      = (None, ?w\<lparr>requests := requests ?w
              @ [GetReq (Namespace (cdMeta ?cd)) (TargetRef_Name ?cd),
                 GetReq (Namespace (cdMeta ?cd)) (TargetRef_Name ?cd @ ''-primary'')]\<rparr>)"
    by (rule t [THEN conjunct2, THEN conjunct2, rule_format]) (rule pre)
  show ?thesis
    by (rule conjI [OF h1 conjI [OF h2 conjI [OF h3 noop]]])
qed

section \<open>Promotion\<close>

lemma map_index_delete_same:
  "map_index (map_delete m k) k = None"
  by (cases m) (simp_all add: map_index_def map_delete_def)

lemma map_index_makePrimaryLabels:
  "map_index (makePrimaryLabels ls v l) l = Some v"
  by (simp add: makePrimaryLabels_def map_index_def)

text \<open>
  Claim C10. For a target with declared min-ready-seconds 5 and a primary with
  min-ready-seconds 0, both in the cluster, whatever node selector the target carries and
  whatever the config tracker and the annotation helper do: if \<open>Promote\<close> returns nil,
  its last request is the update of the primary, the object written is the one stored
  under the primary's name, its metadata are the primary's, its min-ready-seconds is 5, its
  pod-template labels hold the selector label value plus \<open>-primary\<close> under the resolved
  selector label, and its node selector has no scale-to-zero marker.
\<close>

theorem Promote_writes_primary:
  assumes "kruiseClient c = fakeClient"
    and "objects w (Namespace (cdMeta cd), TargetRef_Name cd) = Some canary"
    and "MinReadySeconds (csSpec canary) = 5"
    and "objects w (Namespace (cdMeta cd), TargetRef_Name cd @ ''-primary'') = Some primary"
    and "MinReadySeconds (csSpec primary) = 0"
    and "Promote P c cd w = (None, w')"
  shows
    "\<exists>written label labelValue.
        getSelectorLabel c canary = Inr (label, labelValue)
        \<and> last (requests w') = UpdateReq (Namespace (cdMeta cd)) written
        \<and> objects w' (Namespace (cdMeta cd), Name (csMeta primary)) = Some written
        \<and> csMeta written = csMeta primary
        \<and> MinReadySeconds (csSpec written) = 5
        \<and> map_index (Labels (tmplMeta (Template (csSpec written)))) label
            = Some (labelValue @ ''-primary'')
        \<and> map_index (nodeSelectorOf written) ''flagger.app/scale-to-zero'' = None"
proof -
  let ?ns = "Namespace (cdMeta cd)" and ?name = "TargetRef_Name cd"
  let ?w1 = "w\<lparr>requests := requests w @ [GetReq ?ns ?name]\<rparr>"
  let ?w2 = "w\<lparr>requests := requests w @ [GetReq ?ns ?name, GetReq ?ns (?name @ ''-primary'')]\<rparr>"
  have f0: "faults w (length (requests w)) = None"
  proof (cases "faults w (length (requests w))")
    case (Some e)
    with assms(6) show ?thesis
      by (simp add: Promote_def assms(1) fakeClient_def fakeGet_def Let_def)
  qed simp
  then have g1: "fakeGet ?ns ?name w = (Inr canary, ?w1)"
    using assms(2) by (simp add: fakeGet_found)
  obtain label labelValue where sel: "getSelectorLabel c canary = Inr (label, labelValue)"
  proof (cases "getSelectorLabel c canary")
    case (Inl e)
    with assms(6) show ?thesis
      by (simp add: Promote_def assms(1) fakeClient_def g1 Let_def)
  next
    case (Inr p)
    with that show ?thesis by (cases p) simp
  qed
  have f1: "faults w (Suc (length (requests w))) = None"
  proof (cases "faults w (Suc (length (requests w)))")
    case (Some e)
    with assms(6) show ?thesis
      by (simp add: Promote_def assms(1,2) fakeClient_def f0 sel fakeGet_def Let_def)
  qed simp
  then have g2: "fakeGet ?ns (?name @ ''-primary'') ?w1 = (Inr primary, ?w2)"
    using assms(4) by (simp add: fakeGet_def)
  obtain refs s3 where t1: "GetTargetConfigs (configTracker c) cd ?w2 = (Inr refs, s3)"
  proof (cases "GetTargetConfigs (configTracker c) cd ?w2")
    case (Pair r s)
    show ?thesis
    proof (cases r)
      case (Inl e)
      with Pair assms(6) show ?thesis
        by (simp add: Promote_def assms(1) fakeClient_def g1 sel g2 Let_def)
    next
      case (Inr x)
      with Pair that show ?thesis by simp
    qed
  qed
  obtain s4 where t2: "CreatePrimaryConfigs (configTracker c) cd refs (includeLabelPrefix c) s3
                         = (None, s4)"
  proof (cases "CreatePrimaryConfigs (configTracker c) cd refs (includeLabelPrefix c) s3")
    case (Pair r s)
    show ?thesis
    proof (cases r)
      case (Some e)
      with Pair assms(6) show ?thesis
        by (simp add: Promote_def assms(1) fakeClient_def g1 sel g2 t1 Let_def)
    next
      case None
      with Pair that show ?thesis by simp
    qed
  qed
  obtain anns s5 where t3:
    "makeAnnotations P (Annotations (tmplMeta (Template (csSpec canary)))) s4 = (Inr anns, s5)"
  proof (cases "makeAnnotations P (Annotations (tmplMeta (Template (csSpec canary)))) s4")
    case (Pair r s)
    show ?thesis
    proof (cases r)
      case (Inl e)
      with Pair assms(6) show ?thesis
        by (simp add: Promote_def assms(1) fakeClient_def g1 sel g2 t1 t2 Let_def)
    next
      case (Inr x)
      with Pair that show ?thesis by simp
    qed
  qed
  define copy1 where "copy1 =
     primary\<lparr>csSpec := (csSpec primary)
        \<lparr>MinReadySeconds := MinReadySeconds (csSpec canary),
         RevisionHistoryLimit := RevisionHistoryLimit (csSpec canary),
         UpdateStrategy := UpdateStrategy (csSpec canary)\<rparr>\<rparr>"
  define copy2 where "copy2 =
     copy1\<lparr>csSpec := (csSpec copy1)
        \<lparr>Template := (Template (csSpec copy1))
           \<lparr>tmplSpec := ApplyPrimaryConfigs (configTracker c)
                           (tmplSpec (Template (csSpec canary))) refs\<rparr>\<rparr>\<rparr>"
  define copy3 where "copy3 = with_NodeSelector copy2 (delete_marker (nodeSelectorOf copy2))"
  define written where "written =
     copy3\<lparr>csSpec := (csSpec copy3)
        \<lparr>Template := (Template (csSpec copy3))
           \<lparr>tmplMeta := (tmplMeta (Template (csSpec copy3)))
              \<lparr>Annotations := anns,
               Labels := makePrimaryLabels (Labels (tmplMeta (Template (csSpec canary))))
                           (labelValue @ ''-primary'') label\<rparr>\<rparr>\<rparr>\<rparr>"
  have run: "Promote P c cd w =
      (case fakeUpdate ?ns written s5 of
         (Inl err, s6) \<Rightarrow>
           (Some (Errorf_w ''updating cloneset %s.%s template spec failed: %w''
                    [ArgS (Name (csMeta written)), ArgS (Namespace (csMeta written))] err), s6)
       | (Inr done, s6) \<Rightarrow> (None, s6))"
    unfolding written_def copy3_def copy2_def copy1_def
    by (simp only: Promote_def Let_def assms(1) fakeClient_def KruiseClient.select_convs
        g1 sel g2 t1 t2 t3 sum.case prod.case option.case)
  have meta: "csMeta written = csMeta primary"
    by (simp add: written_def copy3_def copy2_def copy1_def)
  have stored: "objects w' (?ns, Name (csMeta primary)) = Some written
                \<and> last (requests w') = UpdateReq ?ns written"
    using assms(6) unfolding run
    by (auto simp: fakeUpdate_def Let_def meta split: option.splits)
  have minready: "MinReadySeconds (csSpec written) = 5"
    by (simp add: written_def copy3_def copy2_def copy1_def with_NodeSelector_def assms(3))
  have lbl: "map_index (Labels (tmplMeta (Template (csSpec written)))) label
               = Some (labelValue @ ''-primary'')"
    by (simp add: written_def map_index_makePrimaryLabels)
  have "nodeSelectorOf written = nodeSelectorOf copy3"
    by (simp add: written_def nodeSelectorOf_def)
  then have nomarker: "map_index (nodeSelectorOf written) ''flagger.app/scale-to-zero'' = None"
    by (simp add: copy3_def delete_marker_eq map_index_delete_same)
  from sel stored meta minready lbl nomarker show ?thesis
    by (intro exI [of _ written] exI [of _ label] exI [of _ labelValue]) simp
qed

theorem Promote_writes_primary_witness:
  "MinReadySeconds (csSpec (demoCloneSet ''demo'' [(''app'', ''demo'')]
        (Some [''flagger.app/scale-to-zero'' \<mapsto> ''true'']) '''' 5 None)) = 5
   \<and> MinReadySeconds (csSpec (demoCloneSet ''demo-primary'' [(''app'', ''demo-primary'')] None '''' 0 None)) = 0
   \<and> fst (Promote fakePkg (demoController [''app'']) (demoCanary ''Promoting'' False '''')
        (demoWorld [demoCloneSet ''demo'' [(''app'', ''demo'')]
                      (Some [''flagger.app/scale-to-zero'' \<mapsto> ''true'']) '''' 5 None,
                    demoCloneSet ''demo-primary'' [(''app'', ''demo-primary'')] None '''' 0 None] noFaults))
      = None
   \<and> (\<exists>written label labelValue.
        getSelectorLabel (demoController [''app''])
          (demoCloneSet ''demo'' [(''app'', ''demo'')]
             (Some [''flagger.app/scale-to-zero'' \<mapsto> ''true'']) '''' 5 None) = Inr (label, labelValue)
        \<and> last (requests (snd (Promote fakePkg (demoController [''app''])
              (demoCanary ''Promoting'' False '''')
              (demoWorld [demoCloneSet ''demo'' [(''app'', ''demo'')]
                      (Some [''flagger.app/scale-to-zero'' \<mapsto> ''true'']) '''' 5 None,
                    demoCloneSet ''demo-primary'' [(''app'', ''demo-primary'')] None '''' 0 None] noFaults))))
            = UpdateReq (Namespace (cdMeta (demoCanary ''Promoting'' False ''''))) written
        \<and> objects (snd (Promote fakePkg (demoController [''app''])
              (demoCanary ''Promoting'' False '''')
              (demoWorld [demoCloneSet ''demo'' [(''app'', ''demo'')]
                      (Some [''flagger.app/scale-to-zero'' \<mapsto> ''true'']) '''' 5 None,
                    demoCloneSet ''demo-primary'' [(''app'', ''demo-primary'')] None '''' 0 None] noFaults)))
              (Namespace (cdMeta (demoCanary ''Promoting'' False '''')),
               Name (csMeta (demoCloneSet ''demo-primary'' [(''app'', ''demo-primary'')] None '''' 0 None)))
            = Some written
        \<and> csMeta written = csMeta (demoCloneSet ''demo-primary'' [(''app'', ''demo-primary'')] None '''' 0 None)
        \<and> MinReadySeconds (csSpec written) = 5
        \<and> map_index (Labels (tmplMeta (Template (csSpec written)))) label
            = Some (labelValue @ ''-primary'')
        \<and> map_index (nodeSelectorOf written) ''flagger.app/scale-to-zero'' = None)"
proof -
  let ?c = "demoController [''app'']"
  let ?cd = "demoCanary ''Promoting'' False ''''"
  let ?target = "demoCloneSet ''demo'' [(''app'', ''demo'')]
                   (Some [''flagger.app/scale-to-zero'' \<mapsto> ''true'']) '''' 5 None"
  let ?primary = "demoCloneSet ''demo-primary'' [(''app'', ''demo-primary'')] None '''' 0 None"
  let ?w = "demoWorld [?target, ?primary] noFaults"
  have h1: "kruiseClient ?c = fakeClient"
    by (simp add: demoController_def)
  have h2: "objects ?w (Namespace (cdMeta ?cd), TargetRef_Name ?cd) = Some ?target"
    by (simp add: demoWorld_def demoCanary_def demoCloneSet_def)
  have h3: "MinReadySeconds (csSpec ?target) = 5"
    by (simp add: demoCloneSet_def)
  have h4: "objects ?w (Namespace (cdMeta ?cd), TargetRef_Name ?cd @ ''-primary'') = Some ?primary"
    by (simp add: demoWorld_def demoCanary_def demoCloneSet_def)
  have h5: "MinReadySeconds (csSpec ?primary) = 0"
    by (simp add: demoCloneSet_def)
  have ok: "fst (Promote fakePkg ?c ?cd ?w) = None"
    by (simp add: Promote_def getSelectorLabel_def map_index_def Let_def delete_marker_eq
        map_delete_def nodeSelectorOf_def with_NodeSelector_def makePrimaryLabels_def demo_defs)
  then have h6: "Promote fakePkg ?c ?cd ?w = (None, snd (Promote fakePkg ?c ?cd ?w))"
    by (simp add: prod_eq_iff)
  note t = Promote_writes_primary [OF h1 h2 h3 h4 h5 h6]
  show ?thesis
    by (rule conjI [OF h3 conjI [OF h5 conjI [OF ok t]]])
qed

end
